theory Spec2Isabelle
  imports Complex_Main
begin

section \<open>The editor state of \<open>App\<close>\<close>

text \<open>
  The component \<open>App\<close> (src/unnamed/part_000) keeps its state in React \<open>useState\<close>
  cells and \<open>useRef\<close> cells. A handler is a closure over the values of one render: it
  reads the old values and schedules new ones, so a synchronous handler is a function
  from the state of the render to the state of the next render.

  JavaScript numbers are modelled as rationals: \<open>+\<close>, \<open>-\<close>, \<open>*\<close>, \<open>/\<close>, comparison,
  \<open>Math.min\<close>, \<open>Math.max\<close> and \<open>Math.round\<close> are the exact ones. Floating-point rounding
  is outside the model, and so is division by zero (\<open>Infinity\<close>, \<open>NaN\<close>): a statement
  that depends on a quotient names the divisor as non-zero.

  The handlers that only send the image to the remote service and add the answer with
  \<open>addImageToHistory\<close> (\<open>handleGenerate\<close>, \<open>handleApplyFilter\<close>, \<open>handleApplyAdjustment\<close>)
  are not modelled beyond \<open>addImageToHistory\<close>.
\<close>

datatype Tab = Retouch | Erase | Adjust | Filters | CropTab | Transform

type_synonym point = "rat \<times> rat"

text \<open>The fields of \<open>HTMLImageElement\<close> that the handlers read.\<close>

record Img =
  naturalWidth :: rat
  naturalHeight :: rat
  clientWidth :: rat
  clientHeight :: rat
  img_width :: rat
  img_height :: rat

text \<open>
  An element with its bounding client rectangle: the image container (\<open>left\<close>, \<open>top\<close>,
  \<open>width\<close>, \<open>height\<close> of \<open>getBoundingClientRect()\<close>) and the on-screen erase canvas
  (its \<open>width\<close> and \<open>height\<close> attributes, and \<open>left\<close>, \<open>top\<close> of its rectangle).
\<close>

record Rect =
  rect_left :: rat
  rect_top :: rat
  rect_width :: rat
  rect_height :: rat

record CanvasEl =
  el_width :: rat
  el_height :: rat
  el_left :: rat
  el_top :: rat

datatype CropUnit = Px | Percent

record Crop =
  crop_x :: rat
  crop_y :: rat
  crop_width :: rat
  crop_height :: rat
  crop_unit :: CropUnit

text \<open>The fields of a mouse or wheel event that the handlers read.\<close>

record Event =
  clientX :: rat
  clientY :: rat
  deltaY :: rat
  button :: int

text \<open>
  A snapshot is a \<open>File\<close>, an immutable blob; its type is the parameter \<open>'f\<close>.
  The \<open>useState\<close> cells come first, then the \<open>useRef\<close> cells.
\<close>

record 'f state =
  history :: "'f list"
  historyIndex :: int
  prompt :: string
  isLoading :: bool
  error :: "string option"
  editHotspot :: "(int \<times> int) option"
  displayHotspot :: "point option"
  activeTab :: Tab
  crop :: "Crop option"
  completedCrop :: "Crop option"
  isDrawing :: bool
  erasePath :: "point list"
  scale :: rat
  position :: point
  imgRef :: "Img option"
  eraseCanvasRef :: "CanvasEl option"
  erasePathRef :: "point list"
  imageContainerRef :: "Rect option"
  isPanningRef :: bool
  panStartRef :: point

subsection \<open>Arrays\<close>

text \<open>
  \<open>Array.prototype.slice(start, end)\<close>: a negative bound counts from the end of the
  array, and both bounds are clamped to the array.
\<close>

definition js_slice :: "'a list \<Rightarrow> int \<Rightarrow> int \<Rightarrow> 'a list" where
  "js_slice xs start fin =
     (let n = int (length xs);
          k = (if start < 0 then max (n + start) 0 else min start n);
          e = (if fin < 0 then max (n + fin) 0 else min fin n)
      in take (nat (e - k)) (drop (nat k) xs))"

text \<open>\<open>xs[i] ?? null\<close>: an index outside the array reads \<open>undefined\<close>.\<close>

definition js_index :: "'a list \<Rightarrow> int \<Rightarrow> 'a option" where
  "js_index xs i = (if 0 \<le> i \<and> i < int (length xs) then Some (xs ! nat i) else None)"

subsection \<open>Derived values of a render\<close>

definition currentImage :: "'f state \<Rightarrow> 'f option" where
  "currentImage s = js_index (history s) (historyIndex s)"

definition originalImage :: "'f state \<Rightarrow> 'f option" where
  "originalImage s = js_index (history s) 0"

definition canUndo :: "'f state \<Rightarrow> bool" where
  "canUndo s = (historyIndex s > 0)"

definition canRedo :: "'f state \<Rightarrow> bool" where
  "canRedo s = (historyIndex s < int (length (history s)) - 1)"

text \<open>The state of the first render: the initial values of the cells.\<close>

definition initial :: "'f state" where
  "initial = \<lparr> history = [], historyIndex = -1, prompt = [], isLoading = False,
     error = None, editHotspot = None, displayHotspot = None, activeTab = Retouch,
     crop = None, completedCrop = None, isDrawing = False, erasePath = [],
     scale = 1, position = (0, 0), imgRef = None, eraseCanvasRef = None,
     erasePathRef = [], imageContainerRef = None, isPanningRef = False,
     panStartRef = (0, 0) \<rparr>"

subsection \<open>View and tool resets\<close>

definition resetView :: "'f state \<Rightarrow> 'f state" where
  "resetView s = s\<lparr> scale := 1, position := (0, 0) \<rparr>"

text \<open>
  \<open>handleClearErase\<close> empties the recorded path (the ref and the state cell). It also
  clears the pixels of the on-screen canvas, which are not part of this state.
\<close>

definition handleClearErase :: "'f state \<Rightarrow> 'f state" where
  "handleClearErase s = s\<lparr> erasePathRef := [], erasePath := [] \<rparr>"

definition handleTabChange :: "Tab \<Rightarrow> 'f state \<Rightarrow> 'f state" where
  "handleTabChange tabId s =
     (if activeTab s = tabId then s
      else (handleClearErase ((resetView s)\<lparr> editHotspot := None, displayHotspot := None \<rparr>))
             \<lparr> crop := None, completedCrop := None, activeTab := tabId \<rparr>)"

subsection \<open>The edit history\<close>

definition addImageToHistory :: "'f \<Rightarrow> 'f state \<Rightarrow> 'f state" where
  "addImageToHistory newImageFile s =
     (let newHistory = js_slice (history s) 0 (historyIndex s + 1) @ [newImageFile]
      in handleClearErase
           (s\<lparr> history := newHistory, historyIndex := int (length newHistory) - 1,
               crop := None, completedCrop := None \<rparr>))"

definition handleImageUpload :: "'f \<Rightarrow> 'f state \<Rightarrow> 'f state" where
  "handleImageUpload file s =
     resetView (handleClearErase
       (s\<lparr> error := None, history := [file], historyIndex := 0, editHotspot := None,
           displayHotspot := None, activeTab := Retouch, crop := None,
           completedCrop := None \<rparr>))"

definition handleUndo :: "'f state \<Rightarrow> 'f state" where
  "handleUndo s =
     (if canUndo s
      then resetView (handleClearErase
             (s\<lparr> historyIndex := historyIndex s - 1, editHotspot := None,
                 displayHotspot := None \<rparr>))
      else s)"

definition handleRedo :: "'f state \<Rightarrow> 'f state" where
  "handleRedo s =
     (if canRedo s
      then resetView (handleClearErase
             (s\<lparr> historyIndex := historyIndex s + 1, editHotspot := None,
                 displayHotspot := None \<rparr>))
      else s)"

definition handleReset :: "'f state \<Rightarrow> 'f state" where
  "handleReset s =
     (if length (history s) > 0
      then resetView (handleClearErase
             (s\<lparr> historyIndex := 0, error := None, editHotspot := None,
                 displayHotspot := None \<rparr>))
      else s)"

definition handleUploadNew :: "'f state \<Rightarrow> 'f state" where
  "handleUploadNew s =
     resetView (handleClearErase
       (s\<lparr> history := [], historyIndex := -1, error := None, prompt := [],
           editHotspot := None, displayHotspot := None \<rparr>))"

text \<open>A sequence of edits, each appended by \<open>addImageToHistory\<close>, oldest first.\<close>

definition addEdits :: "'f list \<Rightarrow> 'f state \<Rightarrow> 'f state" where
  "addEdits es s = foldl (\<lambda>t e. addImageToHistory e t) s es"

text \<open>
  The index is \<open>-1\<close> when there is no image and a position of the history otherwise.
\<close>

definition indexInRange :: "'f state \<Rightarrow> bool" where
  "indexInRange s = (- 1 \<le> historyIndex s \<and> historyIndex s < int (length (history s)))"

section \<open>Zoom and pan\<close>

text \<open>
  \<open>handleWheel\<close>: \<open>zoomFactor\<close> is 1.1; \<open>newScale\<close> multiplies or divides the scale by
  it, \<open>clampedScale\<close> is \<open>Math.max(1, Math.min(newScale, 10))\<close>.
\<close>

definition zoomFactor :: rat where
  "zoomFactor = 11 / 10"

definition wheel_newScale :: "Event \<Rightarrow> rat \<Rightarrow> rat" where
  "wheel_newScale e sc = (if deltaY e < 0 then sc * zoomFactor else sc / zoomFactor)"

definition wheel_clampedScale :: "Event \<Rightarrow> rat \<Rightarrow> rat" where
  "wheel_clampedScale e sc = max 1 (min (wheel_newScale e sc) 10)"

text \<open>
  The new pan offset of a zoom about the anchor \<open>(ax, ay)\<close>, written twice in
  \<open>handleWheel\<close> (the anchor is the cursor) and twice in the zoom buttons (the anchor is
  the centre of the container): \<open>a - (a - position) * (newScale / scale)\<close>.
\<close>

definition zoomAbout :: "point \<Rightarrow> point \<Rightarrow> rat \<Rightarrow> rat \<Rightarrow> point" where
  "zoomAbout anchor pos newScale oldScale =
     (fst anchor - (fst anchor - fst pos) * (newScale / oldScale),
      snd anchor - (snd anchor - snd pos) * (newScale / oldScale))"

definition handleWheel :: "Event \<Rightarrow> 'f state \<Rightarrow> 'f state" where
  "handleWheel e s =
     (if activeTab s = Erase \<or> activeTab s = CropTab then s
      else case imageContainerRef s of
        None \<Rightarrow> s
      | Some rect \<Rightarrow>
          (let mouseX = clientX e - rect_left rect;
               mouseY = clientY e - rect_top rect;
               clampedScale = wheel_clampedScale e (scale s)
           in if clampedScale = scale s then s
              else if clampedScale \<le> 1 then resetView s
              else s\<lparr> scale := clampedScale,
                     position := zoomAbout (mouseX, mouseY) (position s) clampedScale (scale s) \<rparr>))"

text \<open>
  The pan gesture. The cursor style that \<open>handlePanMouseDown\<close> and \<open>handlePanEnd\<close> set
  on the element is not part of the state.
\<close>

definition handlePanMouseDown :: "Event \<Rightarrow> 'f state \<Rightarrow> 'f state" where
  "handlePanMouseDown e s =
     (if scale s > 1 \<and> button e = 0 \<and> activeTab s \<noteq> Erase \<and> activeTab s \<noteq> CropTab
      then s\<lparr> isPanningRef := True,
             panStartRef := (clientX e - fst (position s), clientY e - snd (position s)) \<rparr>
      else s)"

definition handlePanMouseMove :: "Event \<Rightarrow> 'f state \<Rightarrow> 'f state" where
  "handlePanMouseMove e s =
     (if isPanningRef s
      then s\<lparr> position := (clientX e - fst (panStartRef s), clientY e - snd (panStartRef s)) \<rparr>
      else s)"

definition handlePanEnd :: "'f state \<Rightarrow> 'f state" where
  "handlePanEnd s = (if isPanningRef s then s\<lparr> isPanningRef := False \<rparr> else s)"

definition handleZoomIn :: "'f state \<Rightarrow> 'f state" where
  "handleZoomIn s =
     (case imageContainerRef s of
        None \<Rightarrow> s
      | Some rect \<Rightarrow>
          (let centerX = rect_width rect / 2;
               centerY = rect_height rect / 2;
               newScale = min (scale s * (5 / 4)) 10
           in s\<lparr> scale := newScale,
                  position := zoomAbout (centerX, centerY) (position s) newScale (scale s) \<rparr>))"

definition handleZoomOut :: "'f state \<Rightarrow> 'f state" where
  "handleZoomOut s =
     (let newScale = max (scale s / (5 / 4)) 1
      in if newScale \<le> 1 then resetView s
         else case imageContainerRef s of
           None \<Rightarrow> s
         | Some rect \<Rightarrow>
             (let centerX = rect_width rect / 2;
                  centerY = rect_height rect / 2
              in s\<lparr> scale := newScale,
                     position := zoomAbout (centerX, centerY) (position s) newScale (scale s) \<rparr>))"

text \<open>
  The zoom requests of the interface: a wheel event (up when \<open>deltaY\<close> is negative, down
  otherwise), the zoom-in button and the zoom-out button. \<open>requestedScale\<close> is the scale a
  request asks for before it is clamped: \<open>newScale\<close> of \<open>handleWheel\<close>, \<open>scale * 1.25\<close> of
  \<open>handleZoomIn\<close> and \<open>scale / 1.25\<close> of \<open>handleZoomOut\<close>.
\<close>

datatype zoom_request = Wheel Event | ZoomInButton | ZoomOutButton

fun zoom :: "zoom_request \<Rightarrow> 'f state \<Rightarrow> 'f state" where
  "zoom (Wheel e) s = handleWheel e s"
| "zoom ZoomInButton s = handleZoomIn s"
| "zoom ZoomOutButton s = handleZoomOut s"

fun requestedScale :: "zoom_request \<Rightarrow> 'f state \<Rightarrow> rat" where
  "requestedScale (Wheel e) s = wheel_newScale e (scale s)"
| "requestedScale ZoomInButton s = scale s * (5 / 4)"
| "requestedScale ZoomOutButton s = scale s / (5 / 4)"

text \<open>The scale as the zoom handlers keep it.\<close>

definition scaleInRange :: "'f state \<Rightarrow> bool" where
  "scaleInRange s = (1 \<le> scale s \<and> scale s \<le> 10)"

text \<open>At scale 1 the image is not panned.\<close>

definition centredAtScale1 :: "'f state \<Rightarrow> bool" where
  "centredAtScale1 s = (if scale s = 1 then position s = (0, 0) else True)"

section \<open>The retouch hotspot\<close>

text \<open>
  \<open>handleImageClick\<close> inverts the transform \<open>translate(position) scale(scale)\<close> of the
  image layer: \<open>imageX = (mouseX - position.x) / scale\<close>. The marker of the hotspot is
  rendered at \<open>position.x + displayHotspot.imageX * scale\<close>.
\<close>

definition imageCoords :: "point \<Rightarrow> rat \<Rightarrow> point \<Rightarrow> point" where
  "imageCoords pos sc mouse = ((fst mouse - fst pos) / sc, (snd mouse - snd pos) / sc)"

definition viewportCoords :: "point \<Rightarrow> rat \<Rightarrow> point \<Rightarrow> point" where
  "viewportCoords pos sc pt = (fst pos + fst pt * sc, snd pos + snd pt * sc)"

definition handleImageClick :: "Event \<Rightarrow> 'f state \<Rightarrow> 'f state" where
  "handleImageClick e s =
     (if activeTab s \<noteq> Retouch then s
      else case imgRef s of
        None \<Rightarrow> s
      | Some img \<Rightarrow>
         (case imageContainerRef s of
            None \<Rightarrow> s
          | Some containerRect \<Rightarrow>
             (let mouseX = clientX e - rect_left containerRect;
                  mouseY = clientY e - rect_top containerRect;
                  imageXY = imageCoords (position s) (scale s) (mouseX, mouseY);
                  imageX = fst imageXY;
                  imageY = snd imageXY
              in if imageX < 0 \<or> imageY < 0 \<or> imageX > clientWidth img
                    \<or> imageY > clientHeight img
                 then s
                 else (let scaleX = naturalWidth img / clientWidth img;
                           scaleY = naturalHeight img / clientHeight img;
                           originalX = round (imageX * scaleX);
                           originalY = round (imageY * scaleY)
                       in s\<lparr> displayHotspot := Some (imageX, imageY),
                              editHotspot := Some (originalX, originalY) \<rparr>))))"

text \<open>Where the render puts the marker: \<open>left\<close> and \<open>top\<close> of its style, when it is shown.\<close>

definition hotspotMarker :: "'f state \<Rightarrow> point option" where
  "hotspotMarker s =
     (case displayHotspot s of
        None \<Rightarrow> None
      | Some h \<Rightarrow>
          if \<not> isLoading s \<and> activeTab s = Retouch
          then Some (viewportCoords (position s) (scale s) h)
          else None)"

section \<open>Files and data URLs\<close>

text \<open>
  A \<open>File\<close> as \<open>dataURLtoFile\<close> builds it: \<open>new File([u8arr], filename, {type: mime})\<close>.
  Strings are byte strings; the data URLs of this program are ASCII.
\<close>

record File =
  file_name :: string
  file_type :: string
  file_bytes :: "nat list"

text \<open>\<open>String.prototype.split\<close> with a separator of one character.\<close>

fun split_on :: "char \<Rightarrow> string \<Rightarrow> string list" where
  "split_on sep [] = [[]]"
| "split_on sep (c # cs) =
     (if c = sep then [] # split_on sep cs
      else (case split_on sep cs of
              [] \<Rightarrow> [[c]]
            | piece # pieces \<Rightarrow> (c # piece) # pieces))"

text \<open>
  The regular expression \<open>/:(.*?);/\<close>. From a colon, the lazy group takes the
  characters up to the first semicolon; \<open>.\<close> does not match a line terminator, so the
  attempt fails when one comes first, and the search goes on at the next colon.
  \<open>mime_match\<close> returns the group of the first match.
\<close>

fun upto_semicolon :: "string \<Rightarrow> string option" where
  "upto_semicolon [] = None"
| "upto_semicolon (c # cs) =
     (if c = CHR '';'' then Some []
      else if c = CHR 0x0A \<or> c = CHR 0x0D then None
      else map_option ((#) c) (upto_semicolon cs))"

fun mime_match :: "string \<Rightarrow> string option" where
  "mime_match [] = None"
| "mime_match (c # cs) =
     (if c = CHR '':'' then (case upto_semicolon cs of
                              Some m \<Rightarrow> Some m
                            | None \<Rightarrow> mime_match cs)
      else mime_match cs)"

text \<open>
  The loop \<open>while (n--) u8arr[n] = bstr.charCodeAt(n)\<close> over a \<open>Uint8Array\<close>, which
  stores a number modulo 256.
\<close>

fun fill_u8arr :: "nat \<Rightarrow> string \<Rightarrow> nat list \<Rightarrow> nat list" where
  "fill_u8arr 0 bstr u8arr = u8arr"
| "fill_u8arr (Suc n) bstr u8arr = fill_u8arr n bstr (u8arr[n := of_char (bstr ! n) mod 256])"

text \<open>
  What the browser and the network give the handlers:
  \<^item> \<open>context2d\<close>: whether \<open>canvas.getContext('2d')\<close> returns a context;
  \<^item> \<open>devicePixelRatio\<close>: \<open>window.devicePixelRatio\<close>;
  \<^item> \<open>toDataURL\<close>: \<open>canvas.toDataURL('image/png')\<close>, the PNG encoding of a canvas;
  \<^item> \<open>atob\<close>: base64 decoding, \<open>Inl\<close> the message of the exception it throws;
  \<^item> \<open>now\<close>: \<open>Date.now()\<close> as a template literal prints it;
  \<^item> \<open>loadImage\<close>: decoding a file into an \<open>Image\<close>, \<open>Some (naturalWidth,
    naturalHeight)\<close> for \<open>onload\<close> and \<open>None\<close> for \<open>onerror\<close>;
  \<^item> \<open>generateErasedImage\<close>: the remote service, \<open>Inr\<close> the data URL it resolves to and
    \<open>Inl\<close> the message the handler reports when it rejects.
  The canvas type is the parameter \<open>'c\<close>.
\<close>

record 'c env =
  context2d :: bool
  devicePixelRatio :: rat
  toDataURL :: "'c \<Rightarrow> string"
  atob :: "string \<Rightarrow> string + string"
  now :: string
  loadImage :: "File \<Rightarrow> (rat \<times> rat) option"
  generateErasedImage :: "File \<Rightarrow> File \<Rightarrow> string + string"

text \<open>\<open>dataURLtoFile\<close>; \<open>Inl\<close> is the message of the \<open>Error\<close> it throws.\<close>

definition dataURLtoFile :: "'c env \<Rightarrow> string \<Rightarrow> string \<Rightarrow> string + File" where
  "dataURLtoFile env dataurl filename =
     (let arr = split_on CHR '','' dataurl
      in if length arr < 2 then Inl ''Invalid data URL''
         else case mime_match (arr ! 0) of
           None \<Rightarrow> Inl ''Could not parse MIME type from data URL''
         | Some mime \<Rightarrow>
             if mime = [] then Inl ''Could not parse MIME type from data URL''
             else case atob env (arr ! 1) of
               Inl msg \<Rightarrow> Inl msg
             | Inr bstr \<Rightarrow>
                 (let n = length bstr;
                      u8arr = fill_u8arr n bstr (replicate n 0)
                  in Inr \<lparr> file_name = filename, file_type = mime, file_bytes = u8arr \<rparr>))"

section \<open>Drawing canvases\<close>

text \<open>
  A canvas is modelled by what the handlers do to it: its \<open>width\<close> and \<open>height\<close>, the state
  of its 2D context, and the drawing operations in the order they were made. Pixels are
  not modelled. A drawing operation records the styles, the current transform and the
  geometry it was made with. A rotation is recorded by its angle in degrees: the code
  passes \<open>degrees * Math.PI / 180\<close>.
\<close>

datatype path_cmd = MoveTo rat rat | LineTo rat rat

datatype transform_cmd =
    Translate rat rat
  | RotateDegrees rat
  | Scale rat rat
  | SetTransform rat rat rat rat rat rat

datatype draw_op =
    FillRect string "transform_cmd list" rat rat rat rat
  | StrokePath string rat string string "transform_cmd list" "path_cmd list"
  | DrawImage "transform_cmd list" "(rat \<times> rat \<times> rat \<times> rat) option" "rat \<times> rat \<times> rat \<times> rat"

record Context2D =
  fillStyle :: string
  strokeStyle :: string
  lineWidth :: rat
  lineCap :: string
  lineJoin :: string
  imageSmoothingQuality :: string
  transform :: "transform_cmd list"
  path :: "path_cmd list"

record Canvas =
  width :: rat
  height :: rat
  ctx :: Context2D
  drawn :: "draw_op list"

definition defaultContext :: Context2D where
  "defaultContext = \<lparr> fillStyle = ''#000000'', strokeStyle = ''#000000'', lineWidth = 1,
     lineCap = ''butt'', lineJoin = ''miter'', imageSmoothingQuality = ''low'',
     transform = [], path = [] \<rparr>"

text \<open>\<open>document.createElement('canvas')\<close>: 300 by 150, nothing drawn.\<close>

definition createCanvas :: Canvas where
  "createCanvas = \<lparr> width = 300, height = 150, ctx = defaultContext, drawn = [] \<rparr>"

text \<open>
  Setting \<open>width\<close> or \<open>height\<close> clears the canvas and resets its context. \<open>setWidth\<close> and
  \<open>setHeight\<close> take the value the attribute holds afterwards.
\<close>

definition setWidth :: "rat \<Rightarrow> Canvas \<Rightarrow> Canvas" where
  "setWidth v c = c\<lparr> width := v, ctx := defaultContext, drawn := [] \<rparr>"

definition setHeight :: "rat \<Rightarrow> Canvas \<Rightarrow> Canvas" where
  "setHeight v c = c\<lparr> height := v, ctx := defaultContext, drawn := [] \<rparr>"

text \<open>
  The attributes \<open>width\<close> and \<open>height\<close> of a canvas are \<open>unsigned long\<close>. A number assigned
  to one of them is converted first: truncated toward zero and reduced modulo \<open>2^32\<close>; a
  result above \<open>2^31 - 1\<close> is replaced by the default of the attribute, 300 for the width
  and 150 for the height. \<open>canvasDimension\<close> is the value the attribute holds after the
  assignment. The natural width and height of an image are such attribute values
  already, and the conversion leaves them as they are: the handlers that assign them
  (\<open>handleApplyErase\<close>, \<open>handleTransform\<close>) are modelled with \<open>setWidth\<close> and \<open>setHeight\<close>
  alone. \<open>handleApplyCrop\<close> assigns products that need not be integers.
\<close>

definition toUnsignedLong :: "rat \<Rightarrow> int" where
  "toUnsignedLong v = (if v < 0 then \<lceil>v\<rceil> else \<lfloor>v\<rfloor>) mod 4294967296"

definition canvasDimension :: "rat \<Rightarrow> rat \<Rightarrow> rat" where
  "canvasDimension dflt v =
     (let n = toUnsignedLong v in if n \<le> 2147483647 then of_int n else dflt)"

definition fillRect :: "rat \<Rightarrow> rat \<Rightarrow> rat \<Rightarrow> rat \<Rightarrow> Canvas \<Rightarrow> Canvas" where
  "fillRect x0 y0 w h c =
     c\<lparr> drawn := drawn c @ [FillRect (fillStyle (ctx c)) (transform (ctx c)) x0 y0 w h] \<rparr>"

definition beginPath :: "Canvas \<Rightarrow> Canvas" where
  "beginPath c = c\<lparr> ctx := (ctx c)\<lparr> path := [] \<rparr> \<rparr>"

definition moveTo :: "rat \<Rightarrow> rat \<Rightarrow> Canvas \<Rightarrow> Canvas" where
  "moveTo x0 y0 c = c\<lparr> ctx := (ctx c)\<lparr> path := path (ctx c) @ [MoveTo x0 y0] \<rparr> \<rparr>"

definition lineTo :: "rat \<Rightarrow> rat \<Rightarrow> Canvas \<Rightarrow> Canvas" where
  "lineTo x0 y0 c = c\<lparr> ctx := (ctx c)\<lparr> path := path (ctx c) @ [LineTo x0 y0] \<rparr> \<rparr>"

definition stroke :: "Canvas \<Rightarrow> Canvas" where
  "stroke c =
     c\<lparr> drawn := drawn c @
         [StrokePath (strokeStyle (ctx c)) (lineWidth (ctx c)) (lineCap (ctx c))
            (lineJoin (ctx c)) (transform (ctx c)) (path (ctx c))] \<rparr>"

definition translate :: "rat \<Rightarrow> rat \<Rightarrow> Canvas \<Rightarrow> Canvas" where
  "translate x0 y0 c = c\<lparr> ctx := (ctx c)\<lparr> transform := transform (ctx c) @ [Translate x0 y0] \<rparr> \<rparr>"

definition rotateDegrees :: "rat \<Rightarrow> Canvas \<Rightarrow> Canvas" where
  "rotateDegrees d c = c\<lparr> ctx := (ctx c)\<lparr> transform := transform (ctx c) @ [RotateDegrees d] \<rparr> \<rparr>"

definition scaleBy :: "rat \<Rightarrow> rat \<Rightarrow> Canvas \<Rightarrow> Canvas" where
  "scaleBy x0 y0 c = c\<lparr> ctx := (ctx c)\<lparr> transform := transform (ctx c) @ [Scale x0 y0] \<rparr> \<rparr>"

definition setTransform :: "rat \<Rightarrow> rat \<Rightarrow> rat \<Rightarrow> rat \<Rightarrow> rat \<Rightarrow> rat \<Rightarrow> Canvas \<Rightarrow> Canvas" where
  "setTransform a b c0 d e f c =
     c\<lparr> ctx := (ctx c)\<lparr> transform := [SetTransform a b c0 d e f] \<rparr> \<rparr>"

text \<open>\<open>drawImage\<close> with a destination rectangle, and with a source rectangle as well.\<close>

definition drawImage5 :: "rat \<Rightarrow> rat \<Rightarrow> rat \<Rightarrow> rat \<Rightarrow> Canvas \<Rightarrow> Canvas" where
  "drawImage5 dx dy dw dh c =
     c\<lparr> drawn := drawn c @ [DrawImage (transform (ctx c)) None (dx, dy, dw, dh)] \<rparr>"

definition drawImage9 ::
  "rat \<Rightarrow> rat \<Rightarrow> rat \<Rightarrow> rat \<Rightarrow> rat \<Rightarrow> rat \<Rightarrow> rat \<Rightarrow> rat \<Rightarrow> Canvas \<Rightarrow> Canvas" where
  "drawImage9 sx sy sw sh dx dy dw dh c =
     c\<lparr> drawn := drawn c @
         [DrawImage (transform (ctx c)) (Some (sx, sy, sw, sh)) (dx, dy, dw, dh)] \<rparr>"

section \<open>Handlers that build a canvas\<close>

text \<open>
  A handler that can end in an exception nobody catches: \<open>Throws\<close> carries the message
  and the state the updates made before the exception lead to.
\<close>

datatype 'a outcome = Returns 'a | Throws string 'a

fun state_of :: "'a outcome \<Rightarrow> 'a" where
  "state_of (Returns s) = s"
| "state_of (Throws msg s) = s"

subsection \<open>Rotate and flip\<close>

datatype Transformation = RotateLeft | RotateRight | FlipHorizontal | FlipVertical

text \<open>
  The canvas that \<open>image.onload\<close> of \<open>handleTransform\<close> draws, for a decoded image of
  natural width \<open>w\<close> and natural height \<open>h\<close>. The two rotations share one branch of the
  \<open>switch\<close>.
\<close>

definition transformCanvas :: "Transformation \<Rightarrow> rat \<Rightarrow> rat \<Rightarrow> Canvas" where
  "transformCanvas transformation w h =
     (let canvas = createCanvas
      in if transformation = RotateLeft \<or> transformation = RotateRight
         then (let c1 = setHeight w (setWidth h canvas);
                   c2 = translate (width c1 / 2) (height c1 / 2) c1;
                   c3 = rotateDegrees (if transformation = RotateLeft then - 90 else 90) c2
               in drawImage5 (- w / 2) (- h / 2) w h c3)
         else if transformation = FlipHorizontal
         then (let c1 = setHeight h (setWidth w canvas);
                   c2 = translate w 0 c1;
                   c3 = scaleBy (- 1) 1 c2
               in drawImage5 0 0 w h c3)
         else (let c1 = setHeight h (setWidth w canvas);
                   c2 = translate 0 h c1;
                   c3 = scaleBy 1 (- 1) c2
               in drawImage5 0 0 w h c3))"

text \<open>
  \<open>handleTransform\<close> is asynchronous: it waits for the image to load. The model runs it
  in one step, from the state of the render whose closure it is; what other handlers do
  while it waits is not modelled.
\<close>

definition handleTransform :: "Transformation \<Rightarrow> Canvas env \<Rightarrow> File state \<Rightarrow> File state" where
  "handleTransform transformation env s =
     (case currentImage s of
        None \<Rightarrow> s\<lparr> error := Some ''No image loaded to transform.'' \<rparr>
      | Some cur \<Rightarrow>
          (let s1 = s\<lparr> isLoading := True, error := None \<rparr>;
               transformedImageUrl =
                 (case loadImage env cur of
                    None \<Rightarrow> Inl ''Failed to load image for transformation.''
                  | Some (w, h) \<Rightarrow>
                      if \<not> context2d env then Inl ''Could not get canvas context.''
                      else Inr (toDataURL env (transformCanvas transformation w h)));
               newImageFile =
                 (case transformedImageUrl of
                    Inl msg \<Rightarrow> Inl msg
                  | Inr url \<Rightarrow> dataURLtoFile env url (''transformed-'' @ now env @ ''.png''));
               s2 = (case newImageFile of
                       Inl errorMessage \<Rightarrow>
                         s1\<lparr> error := Some (''Failed to apply the transformation. '' @ errorMessage) \<rparr>
                     | Inr f \<Rightarrow> addImageToHistory f s1)
           in s2\<lparr> isLoading := False \<rparr>))"

text \<open>
  The natural size of the current image, as \<open>image.onload\<close> of \<open>handleTransform\<close> reads
  it: \<open>None\<close> when there is no current image or it does not load.
\<close>

definition currentSize :: "Canvas env \<Rightarrow> File state \<Rightarrow> (rat \<times> rat) option" where
  "currentSize env s =
     (case currentImage s of
        None \<Rightarrow> None
      | Some cur \<Rightarrow> loadImage env cur)"

text \<open>
  What is taken of the browser's PNG codec where the size of a transformed image is at
  stake: the data URL of the canvas is one that \<open>dataURLtoFile\<close> accepts, and the file
  loads as an image of the size of the canvas.
\<close>

definition pngKeepsSize :: "Canvas env \<Rightarrow> Canvas \<Rightarrow> bool" where
  "pngKeepsSize env c =
     (case dataURLtoFile env (toDataURL env c) (''transformed-'' @ now env @ ''.png'') of
        Inl msg \<Rightarrow> False
      | Inr f \<Rightarrow> loadImage env f = Some (width c, height c))"

subsection \<open>Crop\<close>

text \<open>
  The canvas of \<open>handleApplyCrop\<close> once it has a context: it is assigned the size of the
  crop, then the size of the crop times the pixel ratio, and the region of the image
  under the crop is drawn into the rectangle of the crop, under the transform that
  scales by the pixel ratio.
\<close>

definition cropCanvas :: "rat \<Rightarrow> Img \<Rightarrow> Crop \<Rightarrow> Canvas" where
  "cropCanvas ratio img cc =
     (let scaleX = naturalWidth img / img_width img;
          scaleY = naturalHeight img / img_height img;
          c1 = setHeight (canvasDimension 150 (crop_height cc))
                 (setWidth (canvasDimension 300 (crop_width cc)) createCanvas);
          c2 = setHeight (canvasDimension 150 (crop_height cc * ratio))
                 (setWidth (canvasDimension 300 (crop_width cc * ratio)) c1);
          c3 = setTransform ratio 0 0 ratio 0 0 c2;
          c4 = c3\<lparr> ctx := (ctx c3)\<lparr> imageSmoothingQuality := ''high'' \<rparr> \<rparr>
      in drawImage9
           (crop_x cc * scaleX) (crop_y cc * scaleY)
           (crop_width cc * scaleX) (crop_height cc * scaleY)
           0 0 (crop_width cc) (crop_height cc) c4)"

text \<open>\<open>window.devicePixelRatio || 1\<close>: 0 is falsy.\<close>

definition pixelRatio :: "'c env \<Rightarrow> rat" where
  "pixelRatio env = (if devicePixelRatio env = 0 then 1 else devicePixelRatio env)"

text \<open>
  \<open>handleApplyCrop\<close> has no \<open>try\<close>: an exception of \<open>dataURLtoFile\<close> leaves the handler,
  before any update of the state.
\<close>

definition handleApplyCrop :: "Canvas env \<Rightarrow> File state \<Rightarrow> File state outcome" where
  "handleApplyCrop env s =
     (case completedCrop s of
        None \<Rightarrow> Returns (s\<lparr> error := Some ''Please select an area to crop.'' \<rparr>)
      | Some cc \<Rightarrow>
         (case imgRef s of
            None \<Rightarrow> Returns (s\<lparr> error := Some ''Please select an area to crop.'' \<rparr>)
          | Some img \<Rightarrow>
              if \<not> context2d env
              then Returns (s\<lparr> error := Some ''Could not process the crop.'' \<rparr>)
              else (let canvas = cropCanvas (pixelRatio env) img cc;
                        croppedImageUrl = toDataURL env canvas
                    in case dataURLtoFile env croppedImageUrl (''cropped-'' @ now env @ ''.png'') of
                         Inl msg \<Rightarrow> Throws msg s
                       | Inr newImageFile \<Rightarrow> Returns (addImageToHistory newImageFile s))))"

subsection \<open>Erase\<close>

text \<open>
  The gesture on the erase canvas. The stroke that \<open>handleEraseMouseMove\<close> paints on the
  screen as feedback is not part of the state; the recorded path is.
\<close>

definition handleEraseMouseDown :: "Event \<Rightarrow> 'f state \<Rightarrow> 'f state outcome" where
  "handleEraseMouseDown e s =
     (if activeTab s \<noteq> Erase \<or> isLoading s then Returns s
      else case eraseCanvasRef s of
        None \<Rightarrow> Throws ''TypeError'' (s\<lparr> isDrawing := True \<rparr>)
      | Some canvas \<Rightarrow>
          Returns (s\<lparr> isDrawing := True,
                     erasePathRef := [(clientX e - el_left canvas, clientY e - el_top canvas)] \<rparr>))"

definition handleEraseMouseMove :: "Event \<Rightarrow> 'c env \<Rightarrow> 'f state \<Rightarrow> 'f state outcome" where
  "handleEraseMouseMove e env s =
     (if \<not> isDrawing s \<or> activeTab s \<noteq> Erase \<or> isLoading s then Returns s
      else case eraseCanvasRef s of
        None \<Rightarrow> Throws ''TypeError'' s
      | Some canvas \<Rightarrow>
          if \<not> context2d env then Throws ''TypeError'' s
          else if erasePathRef s = [] then Throws ''TypeError'' s
          else Returns (s\<lparr> erasePathRef := erasePathRef s @
                 [(clientX e - el_left canvas, clientY e - el_top canvas)] \<rparr>))"

definition handleEraseMouseUp :: "'f state \<Rightarrow> 'f state" where
  "handleEraseMouseUp s =
     (if \<not> isDrawing s then s
      else s\<lparr> isDrawing := False, erasePath := erasePathRef s \<rparr>)"

text \<open>The prop \<open>canErase\<close> of \<open>ErasePanel\<close>, which enables its two buttons.\<close>

definition canErase :: "'f state \<Rightarrow> bool" where
  "canErase s = (length (erasePath s) > 0)"

text \<open>
  The loop \<open>for (let i = 1; i < path.length; i++) ctx.lineTo(...)\<close>, over the points
  from index 1 on.
\<close>

fun lineTo_loop :: "rat \<Rightarrow> rat \<Rightarrow> point list \<Rightarrow> Canvas \<Rightarrow> Canvas" where
  "lineTo_loop scaleX scaleY [] c = c"
| "lineTo_loop scaleX scaleY (p # ps) c =
     lineTo_loop scaleX scaleY ps (lineTo (fst p * scaleX) (snd p * scaleY) c)"

text \<open>
  The mask canvas of \<open>handleApplyErase\<close>, once it has a context. Reading \<open>path[0].x\<close> of
  an empty path is a \<open>TypeError\<close>; its message is the engine's, the model writes
  \<open>TypeError\<close> for it.
\<close>

definition maskCanvas :: "Img \<Rightarrow> CanvasEl \<Rightarrow> point list \<Rightarrow> string + Canvas" where
  "maskCanvas img displayCanvas pts =
     (let c1 = setHeight (naturalHeight img) (setWidth (naturalWidth img) createCanvas);
          c2 = c1\<lparr> ctx := (ctx c1)\<lparr> fillStyle := ''black'' \<rparr> \<rparr>;
          c3 = fillRect 0 0 (naturalWidth img) (naturalHeight img) c2;
          scaleX = naturalWidth img / el_width displayCanvas;
          scaleY = naturalHeight img / el_height displayCanvas;
          c4 = c3\<lparr> ctx := (ctx c3)\<lparr> strokeStyle := ''white'', lineWidth := 30 * scaleX,
                    lineCap := ''round'', lineJoin := ''round'' \<rparr> \<rparr>;
          c5 = beginPath c4
      in case pts of
           [] \<Rightarrow> Inl ''TypeError''
         | p0 # rest \<Rightarrow>
             Inr (stroke (lineTo_loop scaleX scaleY rest
                    (moveTo (fst p0 * scaleX) (snd p0 * scaleY) c5))))"

text \<open>
  What a run of \<open>handleApplyErase\<close> leaves: the state, the mask canvas if one was drawn,
  and the image and mask sent to \<open>generateErasedImage\<close> if the request was made.
\<close>

record erase_run =
  er_state :: "File state"
  er_mask :: "Canvas option"
  er_request :: "(File \<times> File) option"

definition erase_failed :: "File state \<Rightarrow> string \<Rightarrow> File state" where
  "erase_failed s1 errorMessage =
     s1\<lparr> error := Some (''Failed to apply the erase. '' @ errorMessage), isLoading := False \<rparr>"

text \<open>
  \<open>handleApplyErase\<close> is asynchronous: it draws the mask, then waits for the service.
  The model runs it in one step, like \<open>handleTransform\<close>. The guard of the handler is
  one disjunction of four tests, \<open>!currentImage || erasePathRef.current.length < 2 ||
  !imgRef.current || !eraseCanvasRef.current\<close>; the model looks at the three references
  first and at the length of the path then, which gives the same answer.
\<close>

definition handleApplyErase :: "Canvas env \<Rightarrow> File state \<Rightarrow> erase_run" where
  "handleApplyErase env s =
     (case (currentImage s, imgRef s, eraseCanvasRef s) of
        (Some cur, Some img, Some displayCanvas) \<Rightarrow>
         (if length (erasePathRef s) < 2
          then \<lparr> er_state = s\<lparr> error := Some ''Please draw on the image to select an area to erase.'' \<rparr>,
                 er_mask = None, er_request = None \<rparr>
          else
            (let s1 = s\<lparr> isLoading := True, error := None \<rparr>
             in if \<not> context2d env
                then \<lparr> er_state = erase_failed s1 ''Could not create mask canvas context.'',
                       er_mask = None, er_request = None \<rparr>
                else case maskCanvas img displayCanvas (erasePathRef s) of
                  Inl msg \<Rightarrow> \<lparr> er_state = erase_failed s1 msg, er_mask = None, er_request = None \<rparr>
                | Inr mc \<Rightarrow>
                   (case dataURLtoFile env (toDataURL env mc) ''mask.png'' of
                      Inl msg \<Rightarrow>
                        \<lparr> er_state = erase_failed s1 msg, er_mask = Some mc, er_request = None \<rparr>
                    | Inr maskFile \<Rightarrow>
                       (case generateErasedImage env cur maskFile of
                          Inl msg \<Rightarrow>
                            \<lparr> er_state = erase_failed s1 msg, er_mask = Some mc,
                              er_request = Some (cur, maskFile) \<rparr>
                        | Inr erasedImageUrl \<Rightarrow>
                           (case dataURLtoFile env erasedImageUrl (''erased-'' @ now env @ ''.png'') of
                              Inl msg \<Rightarrow>
                                \<lparr> er_state = erase_failed s1 msg, er_mask = Some mc,
                                  er_request = Some (cur, maskFile) \<rparr>
                            | Inr newImageFile \<Rightarrow>
                                \<lparr> er_state = (addImageToHistory newImageFile s1)\<lparr> isLoading := False \<rparr>,
                                  er_mask = Some mc, er_request = Some (cur, maskFile) \<rparr>)))))
      | _ \<Rightarrow>
          \<lparr> er_state = s\<lparr> error := Some ''Please draw on the image to select an area to erase.'' \<rparr>,
            er_mask = None, er_request = None \<rparr>)"

text \<open>
  The polyline through a list of points, as path commands: move to the first point, then
  a line to each of the others.
\<close>

fun polyline :: "point list \<Rightarrow> path_cmd list" where
  "polyline [] = []"
| "polyline (p # ps) = MoveTo (fst p) (snd p) # map (\<lambda>q. LineTo (fst q) (snd q)) ps"

section \<open>Example states\<close>

text \<open>
  A session that ends with the scale at 1 and the pan offset away from the origin. The
  image is uploaded and its container mounted at \<open>(0, 0)\<close>; one wheel step zooms in to
  1.1; the left button goes down and starts a pan; with the button still down one wheel
  step zooms back to 1 and resets the view, but the pan gesture stays active; the next
  mouse move sets the pan offset.
\<close>

definition container0 :: Rect where
  "container0 = \<lparr> rect_left = 0, rect_top = 0, rect_width = 800, rect_height = 600 \<rparr>"

definition wheelUp :: Event where
  "wheelUp = \<lparr> clientX = 100, clientY = 100, deltaY = - 1, button = 0 \<rparr>"

definition wheelDown :: Event where
  "wheelDown = \<lparr> clientX = 100, clientY = 100, deltaY = 1, button = 0 \<rparr>"

definition mouseAt :: "rat \<Rightarrow> rat \<Rightarrow> Event" where
  "mouseAt a b = \<lparr> clientX = a, clientY = b, deltaY = 0, button = 0 \<rparr>"

definition mounted :: "nat state" where
  "mounted = (handleImageUpload 0 initial)\<lparr> imageContainerRef := Some container0 \<rparr>"

definition pannedAtScale1 :: "nat state" where
  "pannedAtScale1 =
     handlePanMouseMove (mouseAt 150 100)
       (handleWheel wheelDown
         (handlePanMouseDown (mouseAt 100 100)
           (handleWheel wheelUp mounted)))"

text \<open>An image of 1600 by 1200 pixels shown at 800 by 600, for the examples.\<close>

definition img0 :: Img where
  "img0 = \<lparr> naturalWidth = 1600, naturalHeight = 1200, clientWidth = 800,
     clientHeight = 600, img_width = 800, img_height = 600 \<rparr>"

definition shown :: "nat state" where
  "shown = mounted\<lparr> imgRef := Some img0 \<rparr>"

text \<open>
  A browser for the examples: every canvas is encoded as the same data URL, which
  \<open>atob\<close> decodes to three bytes; the pixel ratio is 2.
\<close>

definition env0 :: "Canvas env" where
  "env0 = \<lparr> context2d = True, devicePixelRatio = 2,
     toDataURL = (\<lambda>c. ''data:image/png;base64,YWJj''),
     atob = (\<lambda>b. Inr ''abc''), now = ''0'',
     loadImage = (\<lambda>f. Some (1600, 1200)),
     generateErasedImage = (\<lambda>f m. Inr ''data:image/png;base64,YWJj'') \<rparr>"

definition file0 :: File where
  "file0 = \<lparr> file_name = ''photo.png'', file_type = ''image/png'', file_bytes = [1, 2, 3] \<rparr>"

definition editor0 :: "File state" where
  "editor0 = (handleImageUpload file0 initial)
     \<lparr> imgRef := Some img0, imageContainerRef := Some container0 \<rparr>"

definition eraseCanvas0 :: CanvasEl where
  "eraseCanvas0 = \<lparr> el_width = 800, el_height = 600, el_left = 0, el_top = 0 \<rparr>"

definition erasing0 :: "File state" where
  "erasing0 = (handleTabChange Erase editor0)\<lparr> eraseCanvasRef := Some eraseCanvas0 \<rparr>"

text \<open>A stroke of two points, and a click without a move.\<close>

definition stroke0 :: "File state" where
  "stroke0 =
     handleEraseMouseUp
       (state_of (handleEraseMouseMove (mouseAt 30 40) env0
         (state_of (handleEraseMouseDown (mouseAt 10 20) erasing0))))"

definition click0 :: "File state" where
  "click0 = handleEraseMouseUp (state_of (handleEraseMouseDown (mouseAt 10 20) erasing0))"

definition crop0 :: Crop where
  "crop0 = \<lparr> crop_x = 100, crop_y = 50, crop_width = 200, crop_height = 100, crop_unit = Px \<rparr>"

definition cropping0 :: "File state" where
  "cropping0 = (handleTabChange CropTab editor0)\<lparr> completedCrop := Some crop0 \<rparr>"

text \<open>
  A browser whose PNG of a canvas is two bytes, the width and the height of the canvas,
  sent undecoded; an image of 4 by 3 in it.
\<close>

definition env1 :: "Canvas env" where
  "env1 = \<lparr> context2d = True, devicePixelRatio = 1,
     toDataURL = (\<lambda>c. ''data:image/png;base64,'' @
                   [char_of (nat \<lfloor>width c\<rfloor>), char_of (nat \<lfloor>height c\<rfloor>)]),
     atob = (\<lambda>b. Inr b), now = ''0'',
     loadImage = (\<lambda>f. case file_bytes f of
                     [a, b] \<Rightarrow> Some (of_nat a, of_nat b)
                   | _ \<Rightarrow> None),
     generateErasedImage = (\<lambda>f m. Inl ''offline'') \<rparr>"

definition file1 :: File where
  "file1 = \<lparr> file_name = ''photo.png'', file_type = ''image/png'', file_bytes = [4, 3] \<rparr>"

definition editor1 :: "File state" where
  "editor1 = handleImageUpload file1 initial"

text \<open>
  The browser \<open>env0\<close>, but with \<open>data:,\<close> as the data URL of a canvas that has no pixels,
  and a crop of height 0.
\<close>

definition env2 :: "Canvas env" where
  "env2 = env0\<lparr> toDataURL := (\<lambda>c. if width c = 0 \<or> height c = 0 then ''data:,''
                                 else ''data:image/png;base64,YWJj'') \<rparr>"

definition flatCrop0 :: "File state" where
  "flatCrop0 = cropping0\<lparr> completedCrop := Some (crop0\<lparr> crop_height := 0 \<rparr>) \<rparr>"

section \<open>Properties of the edit history\<close>

lemma js_slice_prefix:
  "0 \<le> j \<Longrightarrow> js_slice xs 0 j = take (nat j) xs"
  by (cases "j \<le> int (length xs)") (simp_all add: js_slice_def Let_def min_def)

lemma addImageToHistory_history:
  "- 1 \<le> historyIndex s \<Longrightarrow>
   history (addImageToHistory f s) = take (nat (historyIndex s + 1)) (history s) @ [f]"
  by (simp add: addImageToHistory_def handleClearErase_def Let_def js_slice_prefix)

lemma addImageToHistory_index:
  "historyIndex (addImageToHistory f s) = int (length (history (addImageToHistory f s))) - 1"
  by (simp add: addImageToHistory_def handleClearErase_def Let_def)

lemma addImageToHistory_at_end:
  assumes "historyIndex s = int (length (history s)) - 1"
  shows "history (addImageToHistory f s) = history s @ [f]"
    and "historyIndex (addImageToHistory f s) = int (length (history s))"
  using assms
  by (simp_all add: addImageToHistory_def handleClearErase_def Let_def js_slice_prefix)

lemma addEdits_at_end:
  "historyIndex s = int (length (history s)) - 1 \<Longrightarrow>
   history (addEdits es s) = history s @ es \<and>
   historyIndex (addEdits es s) = int (length (history s @ es)) - 1"
proof (induction es arbitrary: s)
  case Nil
  then show ?case by (simp add: addEdits_def)
next
  case (Cons e es)
  have step: "historyIndex (addImageToHistory e s) =
      int (length (history (addImageToHistory e s))) - 1"
    by (rule addImageToHistory_index)
  from Cons.IH [OF step] Cons.prems show ?case
    by (simp add: addEdits_def addImageToHistory_at_end)
qed

lemma handleUndo_history: "history (handleUndo s) = history s"
  by (simp add: handleUndo_def resetView_def handleClearErase_def)

lemma handleRedo_history: "history (handleRedo s) = history s"
  by (simp add: handleRedo_def resetView_def handleClearErase_def)

lemma handleUndo_index:
  "historyIndex (handleUndo s) =
     (if historyIndex s > 0 then historyIndex s - 1 else historyIndex s)"
  by (simp add: handleUndo_def canUndo_def resetView_def handleClearErase_def)

lemma handleRedo_index:
  "historyIndex (handleRedo s) =
     (if historyIndex s < int (length (history s)) - 1 then historyIndex s + 1
      else historyIndex s)"
  by (simp add: handleRedo_def canRedo_def resetView_def handleClearErase_def)

lemma undo_times:
  "int k \<le> historyIndex s \<Longrightarrow>
   history ((handleUndo ^^ k) s) = history s \<and>
   historyIndex ((handleUndo ^^ k) s) = historyIndex s - int k"
  by (induction k) (simp_all add: handleUndo_history handleUndo_index)

lemma redo_times:
  "historyIndex s + int k \<le> int (length (history s)) - 1 \<Longrightarrow>
   history ((handleRedo ^^ k) s) = history s \<and>
   historyIndex ((handleRedo ^^ k) s) = historyIndex s + int k"
  by (induction k) (simp_all add: handleRedo_history handleRedo_index)

text \<open>
  The index stays in range: it is in range at the start, and every handler that touches
  the history keeps it there.
\<close>

lemma indexInRange_initial: "indexInRange initial"
  by (simp add: indexInRange_def initial_def)

lemma indexInRange_preserved:
  assumes "indexInRange s"
  shows "indexInRange (addImageToHistory f s)" and "indexInRange (handleImageUpload f s)"
    and "indexInRange (handleUndo s)" and "indexInRange (handleRedo s)"
    and "indexInRange (handleReset s)" and "indexInRange (handleUploadNew s)"
  using assms
  by (auto simp: indexInRange_def addImageToHistory_index addImageToHistory_history
      handleUndo_index handleUndo_history handleRedo_index handleRedo_history
      handleImageUpload_def handleReset_def handleUploadNew_def resetView_def
      handleClearErase_def)

text \<open>
  Claim C1. Adding an edit keeps the entries of the history up to and including the
  current index, discards every entry after it, appends the new snapshot, and makes the
  appended snapshot (the new last element) the current one. The index is any index the
  editor can hold: \<open>-1\<close> for no image, or a position of the history. The new history has
  \<open>index + 2\<close> entries: when the index was not the last position, the entries after it
  (the redo entries) are gone.
\<close>

theorem addImageToHistory_truncates_then_appends:
  assumes "- 1 \<le> historyIndex s" and "historyIndex s < int (length (history s))"
  shows "history (addImageToHistory f s) = take (nat (historyIndex s + 1)) (history s) @ [f]
       \<and> int (length (history (addImageToHistory f s))) = historyIndex s + 2
       \<and> historyIndex (addImageToHistory f s) = historyIndex s + 1
       \<and> historyIndex (addImageToHistory f s) =
           int (length (history (addImageToHistory f s))) - 1
       \<and> last (history (addImageToHistory f s)) = f
       \<and> currentImage (addImageToHistory f s) = Some f"
proof -
  let ?t = "addImageToHistory f s"
  have h: "history ?t = take (nat (historyIndex s + 1)) (history s) @ [f]"
    using assms(1) by (rule addImageToHistory_history)
  have len: "int (length (history ?t)) = historyIndex s + 2"
    using assms by (auto simp: h min_def)
  have idx: "historyIndex ?t = int (length (history ?t)) - 1"
    by (rule addImageToHistory_index)
  have cur: "currentImage ?t = Some f"
    unfolding currentImage_def js_index_def idx
    by (simp add: h nth_append)
  from h len idx cur show ?thesis by simp
qed

theorem addImageToHistory_truncates_then_appends_witness:
  "history (addImageToHistory (9::nat) (initial\<lparr> history := [1, 2, 3], historyIndex := 0 \<rparr>))
     = [1, 9]
   \<and> historyIndex (addImageToHistory (9::nat)
        (initial\<lparr> history := [1, 2, 3], historyIndex := 0 \<rparr>)) = 1
   \<and> currentImage (addImageToHistory (9::nat)
        (initial\<lparr> history := [1, 2, 3], historyIndex := 0 \<rparr>)) = Some 9"
  using addImageToHistory_truncates_then_appends
    [of "initial\<lparr> history := [1, 2, 3], historyIndex := 0 \<rparr>" "9::nat"]
  by simp

text \<open>
  Claim C2. Upload an image \<open>f0\<close> (the history is \<open>[f0]\<close>, the index 0) and append the
  edits \<open>es\<close>, \<open>N\<close> of them. Then \<open>N\<close> undos walk back through the snapshots in reverse
  order and end at the original: the current image is \<open>f0\<close>, at position 0. From there
  the \<open>k\<close>-th redo shows the \<open>k\<close>-th edit, so \<open>N\<close> redos replay \<open>es\<close> in order and end at
  the last edit. The history itself is the same list throughout.
\<close>

theorem undo_redo_replay:
  "let edited = addEdits es (handleImageUpload f0 s);
       undone = (handleUndo ^^ length es) edited;
       redone = (handleRedo ^^ length es) undone
   in history edited = f0 # es \<and> historyIndex edited = int (length es)
    \<and> map (\<lambda>k. currentImage ((handleUndo ^^ k) edited)) [0..<Suc (length es)]
        = map Some (rev (f0 # es))
    \<and> history undone = f0 # es \<and> historyIndex undone = 0 \<and> currentImage undone = Some f0
    \<and> map (\<lambda>k. currentImage ((handleRedo ^^ k) undone)) [1..<Suc (length es)] = map Some es
    \<and> history redone = f0 # es \<and> historyIndex redone = int (length es)
    \<and> currentImage redone = Some (last (f0 # es))"
proof -
  define up where "up = handleImageUpload f0 s"
  define edited where "edited = addEdits es up"
  define undone where "undone = (handleUndo ^^ length es) edited"
  define redone where "redone = (handleRedo ^^ length es) undone"
  have up: "history up = [f0]" "historyIndex up = 0"
    by (simp_all add: up_def handleImageUpload_def resetView_def handleClearErase_def)
  have ed: "history edited = f0 # es" "historyIndex edited = int (length es)"
    using addEdits_at_end [of up es] by (simp_all add: edited_def up)
  have undo_k: "history ((handleUndo ^^ k) edited) = f0 # es
      \<and> historyIndex ((handleUndo ^^ k) edited) = int (length es) - int k"
    if "k \<le> length es" for k
    using undo_times [of k edited] that by (simp add: ed)
  have un: "history undone = f0 # es" "historyIndex undone = 0"
    using undo_k [of "length es"] by (simp_all add: undone_def)
  have redo_k: "history ((handleRedo ^^ k) undone) = f0 # es
      \<and> historyIndex ((handleRedo ^^ k) undone) = int k"
    if "k \<le> length es" for k
    using redo_times [of undone k] that by (simp add: un)
  have re: "history redone = f0 # es" "historyIndex redone = int (length es)"
    using redo_k [of "length es"] by (simp_all add: redone_def)
  have cur_un: "currentImage undone = Some f0"
    by (simp add: currentImage_def js_index_def un)
  have cur_re: "currentImage redone = Some (last (f0 # es))"
    by (simp add: currentImage_def js_index_def re last_conv_nth)
  have undo_seq: "map (\<lambda>k. currentImage ((handleUndo ^^ k) edited)) [0..<Suc (length es)]
      = map Some (rev (f0 # es))"
  proof (rule nth_equalityI)
    show "length (map (\<lambda>k. currentImage ((handleUndo ^^ k) edited)) [0..<Suc (length es)])
        = length (map Some (rev (f0 # es)))"
      by simp
  next
    fix i
    assume "i < length (map (\<lambda>k. currentImage ((handleUndo ^^ k) edited))
      [0..<Suc (length es)])"
    then have i: "i \<le> length es" by (simp del: upt_Suc)
    have "currentImage ((handleUndo ^^ i) edited) = Some ((f0 # es) ! (length es - i))"
      using undo_k [OF i] i
      by (simp add: currentImage_def js_index_def nat_diff_distrib' del: funpow.simps)
    also have "(f0 # es) ! (length es - i) = rev (f0 # es) ! i"
      using i by (simp add: rev_nth del: rev.simps)
    finally show "map (\<lambda>k. currentImage ((handleUndo ^^ k) edited)) [0..<Suc (length es)] ! i
        = map Some (rev (f0 # es)) ! i"
      using i by (simp add: nth_append del: upt_Suc rev.simps funpow.simps)
  qed
  have redo_seq: "map (\<lambda>k. currentImage ((handleRedo ^^ k) undone)) [1..<Suc (length es)]
      = map Some es"
  proof (rule nth_equalityI)
    show "length (map (\<lambda>k. currentImage ((handleRedo ^^ k) undone)) [1..<Suc (length es)])
        = length (map Some es)"
      by (simp del: upt_Suc)
  next
    fix i
    assume "i < length (map (\<lambda>k. currentImage ((handleRedo ^^ k) undone))
      [1..<Suc (length es)])"
    then have i: "i < length es" by (simp del: upt_Suc)
    then have "Suc i \<le> length es" by simp
    from redo_k [OF this]
    have "currentImage ((handleRedo ^^ Suc i) undone) = Some (es ! i)"
      using i nat_int [of "Suc i"]
      by (simp add: currentImage_def js_index_def del: funpow.simps nat_int)
    moreover have "[1..<Suc (length es)] ! i = Suc i"
      using i by (simp only: nth_upt)
    ultimately show "map (\<lambda>k. currentImage ((handleRedo ^^ k) undone))
        [1..<Suc (length es)] ! i = map Some es ! i"
      using i by (simp only: nth_map length_upt)
  qed
  from ed un re cur_un cur_re undo_seq redo_seq show ?thesis
    unfolding Let_def up_def [symmetric] edited_def [symmetric] undone_def [symmetric]
      redone_def [symmetric]
    by simp
qed

theorem undo_redo_replay_witness:
  "currentImage ((handleUndo ^^ 2) (addEdits [1, 2] (handleImageUpload (0::nat) initial)))
     = Some 0
   \<and> map (\<lambda>k. currentImage ((handleRedo ^^ k)
        ((handleUndo ^^ 2) (addEdits [1, 2] (handleImageUpload (0::nat) initial))))) [1, 2]
     = [Some 1, Some 2]"
  using undo_redo_replay [of "[1, 2]" "0::nat" initial]
  by (simp add: Let_def numeral_2_eq_2)

section \<open>Properties of zoom and pan\<close>

lemma wheel_clampedScale_range: "1 \<le> wheel_clampedScale e sc \<and> wheel_clampedScale e sc \<le> 10"
  by (simp add: wheel_clampedScale_def)

lemma handleWheel_scale_range:
  assumes "1 \<le> scale s" and "scale s \<le> 10"
  shows "1 \<le> scale (handleWheel e s) \<and> scale (handleWheel e s) \<le> 10"
  using assms wheel_clampedScale_range [of e "scale s"]
  by (simp add: handleWheel_def Let_def resetView_def split: option.splits)

lemma handleZoomIn_scale_range:
  assumes "1 \<le> scale s" and "scale s \<le> 10"
  shows "1 \<le> scale (handleZoomIn s) \<and> scale (handleZoomIn s) \<le> 10"
  using assms by (simp add: handleZoomIn_def Let_def split: option.splits)

lemma handleZoomOut_scale_range:
  assumes "1 \<le> scale s" and "scale s \<le> 10"
  shows "1 \<le> scale (handleZoomOut s) \<and> scale (handleZoomOut s) \<le> 10"
  using assms
  by (auto simp: handleZoomOut_def Let_def resetView_def max_def split: option.splits)

lemma zoom_scale_range:
  assumes "1 \<le> scale s" and "scale s \<le> 10"
  shows "1 \<le> scale (zoom r s) \<and> scale (zoom r s) \<le> 10"
proof (cases r)
  case (Wheel e)
  then show ?thesis using handleWheel_scale_range [OF assms, of e] by simp
next
  case ZoomInButton
  then show ?thesis using handleZoomIn_scale_range [OF assms] by simp
next
  case ZoomOutButton
  then show ?thesis using handleZoomOut_scale_range [OF assms] by simp
qed

text \<open>
  The scale stays in \<open>[1, 10]\<close>: it is 1 at the start, and the handlers that set it keep
  it there.
\<close>

lemma scaleInRange_initial: "scaleInRange initial"
  by (simp add: scaleInRange_def initial_def)

lemma scaleInRange_preserved:
  assumes "scaleInRange s"
  shows "scaleInRange (zoom r s)" and "scaleInRange (resetView s)"
  using assms zoom_scale_range [of s r]
  by (simp_all add: scaleInRange_def resetView_def)

lemma handleWheel_scale_1:
  assumes "scale (handleWheel e s) = 1"
  shows "position (handleWheel e s) = (0, 0)
       \<or> scale s = 1 \<and> position (handleWheel e s) = position s"
  using assms
  by (auto simp: handleWheel_def Let_def resetView_def split: option.splits if_splits)

lemma handleZoomIn_scale_1:
  assumes "1 \<le> scale s" and "scale (handleZoomIn s) = 1"
  shows "position (handleZoomIn s) = (0, 0)
       \<or> scale s = 1 \<and> position (handleZoomIn s) = position s"
  using assms
  by (simp add: handleZoomIn_def Let_def min_def split: option.splits if_splits)

lemma handleZoomOut_scale_1:
  assumes "scale (handleZoomOut s) = 1"
  shows "position (handleZoomOut s) = (0, 0)
       \<or> scale s = 1 \<and> position (handleZoomOut s) = position s"
  using assms
  by (simp add: handleZoomOut_def Let_def resetView_def split: option.splits if_splits)

lemma handleWheel_clamps:
  assumes "activeTab s \<noteq> Erase" and "activeTab s \<noteq> CropTab" and "imageContainerRef s = Some c"
  shows "scale (handleWheel e s) = wheel_clampedScale e (scale s)"
  using assms wheel_clampedScale_range [of e "scale s"]
  by (auto simp: handleWheel_def Let_def resetView_def)

lemma handleZoomIn_clamps:
  assumes "imageContainerRef s = Some c"
  shows "scale (handleZoomIn s) = min (scale s * (5 / 4)) 10"
  using assms by (simp add: handleZoomIn_def Let_def)

lemma handleZoomOut_clamps:
  assumes "scale s / (5 / 4) < 1"
  shows "scale (handleZoomOut s) = 1"
  using assms by (simp add: handleZoomOut_def Let_def resetView_def max_def)

lemma handleZoomOut_resets:
  assumes "scale (handleZoomOut s) = 1"
  shows "position (handleZoomOut s) = (0, 0)"
  using assms
  by (auto simp: handleZoomOut_def Let_def resetView_def max_def split: option.splits if_splits)

text \<open>
  What the zoom handlers give from every state with the scale in \<open>[1, 10]\<close>: the scale
  stays in \<open>[1, 10]\<close>, and a request that brings the scale to 1 from another scale
  leaves the pan offset at \<open>(0, 0)\<close>. With the container mounted and outside the erase
  and crop tabs, a request that asks for more than 10 yields exactly 10, one that asks
  for less than 1 yields exactly 1, and after a zoom button a resulting scale of 1 comes
  with the pan offset \<open>(0, 0)\<close>.
\<close>

lemma zoom_clamped:
  assumes "1 \<le> scale s" and "scale s \<le> 10"
  shows "1 \<le> scale (zoom r s) \<and> scale (zoom r s) \<le> 10
       \<and> (scale (zoom r s) = 1 \<and> scale s \<noteq> 1 \<longrightarrow> position (zoom r s) = (0, 0))
       \<and> (activeTab s \<noteq> Erase \<and> activeTab s \<noteq> CropTab \<and> imageContainerRef s \<noteq> None \<longrightarrow>
            (requestedScale r s > 10 \<longrightarrow> scale (zoom r s) = 10)
          \<and> (requestedScale r s < 1 \<longrightarrow> scale (zoom r s) = 1)
          \<and> ((r = ZoomInButton \<or> r = ZoomOutButton) \<and> scale (zoom r s) = 1 \<longrightarrow>
                position (zoom r s) = (0, 0)))"
proof -
  have range: "1 \<le> scale (zoom r s) \<and> scale (zoom r s) \<le> 10"
    using assms by (rule zoom_scale_range)
  have one: "position (zoom r s) = (0, 0)"
    if "scale (zoom r s) = 1" and "scale s \<noteq> 1"
  proof (cases r)
    case (Wheel e)
    with that handleWheel_scale_1 [of e s] show ?thesis by simp
  next
    case ZoomInButton
    with that handleZoomIn_scale_1 [OF assms(1)] show ?thesis by simp
  next
    case ZoomOutButton
    with that handleZoomOut_resets [of s] show ?thesis by simp
  qed
  have clamp: "(requestedScale r s > 10 \<longrightarrow> scale (zoom r s) = 10)
      \<and> (requestedScale r s < 1 \<longrightarrow> scale (zoom r s) = 1)"
    and button: "(r = ZoomInButton \<or> r = ZoomOutButton) \<and> scale (zoom r s) = 1 \<longrightarrow>
      position (zoom r s) = (0, 0)"
    if tab: "activeTab s \<noteq> Erase" "activeTab s \<noteq> CropTab"
      and c: "imageContainerRef s \<noteq> None"
  proof -
    from c obtain rect where rect: "imageContainerRef s = Some rect" by auto
    have zoomIn: "scale (handleZoomIn s) = min (scale s * (5 / 4)) 10"
      using rect by (rule handleZoomIn_clamps)
    show "(requestedScale r s > 10 \<longrightarrow> scale (zoom r s) = 10)
      \<and> (requestedScale r s < 1 \<longrightarrow> scale (zoom r s) = 1)"
    proof (cases r)
      case (Wheel e)
      have "scale (handleWheel e s) = max 1 (min (wheel_newScale e (scale s)) 10)"
        using handleWheel_clamps [OF tab rect, of e] by (simp add: wheel_clampedScale_def)
      with Wheel show ?thesis by simp
    next
      case ZoomInButton
      with zoomIn assms(1) show ?thesis by simp
    next
      case ZoomOutButton
      have "scale s / (5 / 4) < 1 \<Longrightarrow> scale (handleZoomOut s) = 1"
        by (rule handleZoomOut_clamps)
      with ZoomOutButton assms(2) show ?thesis by simp
    qed
    show "(r = ZoomInButton \<or> r = ZoomOutButton) \<and> scale (zoom r s) = 1 \<longrightarrow>
      position (zoom r s) = (0, 0)"
    proof (cases r)
      case (Wheel e)
      then show ?thesis by simp
    next
      case ZoomInButton
      with zoomIn assms(1) show ?thesis by (simp add: min_def split: if_splits)
    next
      case ZoomOutButton
      with handleZoomOut_resets [of s] show ?thesis by simp
    qed
  qed
  from range one clamp button show ?thesis by blast
qed

lemma zoom_clamped_example:
  "scale (zoom (Wheel wheelUp) (mounted\<lparr> scale := 19 / 2 \<rparr>)) = 10
   \<and> scale (zoom ZoomOutButton (mounted\<lparr> scale := 6 / 5, position := (3, 4) \<rparr>)) = 1
   \<and> position (zoom ZoomOutButton (mounted\<lparr> scale := 6 / 5, position := (3, 4) \<rparr>)) = (0, 0)"
  using zoom_clamped [of "mounted\<lparr> scale := 19 / 2 \<rparr>" "Wheel wheelUp"]
    zoom_clamped [of "mounted\<lparr> scale := 6 / 5, position := (3, 4) \<rparr>" ZoomOutButton]
  by (simp add: mounted_def handleImageUpload_def resetView_def handleClearErase_def
      initial_def wheelUp_def wheel_newScale_def zoomFactor_def handleZoomOut_def)

text \<open>
  From every state in which the image is not panned at scale 1, a zoom request that
  ends at scale 1 ends with the pan offset \<open>(0, 0)\<close>. The zoom handlers, \<open>resetView\<close>,
  \<open>handlePanMouseDown\<close> and \<open>handlePanEnd\<close> lead from such a state to such a state, and so
  does \<open>handlePanMouseMove\<close> as long as the scale is not 1.
\<close>

lemma zoom_keeps_centred:
  assumes "1 \<le> scale s" and "centredAtScale1 s"
  shows "centredAtScale1 (zoom r s)"
proof (cases "scale (zoom r s) = 1")
  case False
  then show ?thesis by (simp add: centredAtScale1_def)
next
  case True
  have "position (zoom r s) = (0, 0) \<or> scale s = 1 \<and> position (zoom r s) = position s"
  proof (cases r)
    case (Wheel e)
    with True handleWheel_scale_1 [of e s] show ?thesis by simp
  next
    case ZoomInButton
    with True handleZoomIn_scale_1 [OF assms(1)] show ?thesis by simp
  next
    case ZoomOutButton
    with True handleZoomOut_resets [of s] show ?thesis by simp
  qed
  with True assms(2) show ?thesis
    by (auto simp: centredAtScale1_def)
qed

lemma zoom_pan_reset_when_centred:
  assumes "1 \<le> scale s" and "centredAtScale1 s" and "scale (zoom r s) = 1"
  shows "position (zoom r s) = (0, 0)"
  using zoom_keeps_centred [OF assms(1,2), of r] assms(3)
  by (simp add: centredAtScale1_def)

lemma centred_kept:
  "centredAtScale1 initial"
  "centredAtScale1 (resetView s)"
  "centredAtScale1 s \<Longrightarrow> centredAtScale1 (handlePanMouseDown e s)"
  "centredAtScale1 s \<Longrightarrow> centredAtScale1 (handlePanEnd s)"
  "scale s \<noteq> 1 \<Longrightarrow> centredAtScale1 (handlePanMouseMove e s)"
  by (simp_all add: centredAtScale1_def initial_def resetView_def handlePanMouseDown_def
      handlePanEnd_def handlePanMouseMove_def)

text \<open>
  Claim C3 says that after every zoom request from a scale in \<open>[1, 10]\<close> the scale is in
  \<open>[1, 10]\<close>, exactly 10 or exactly 1 where the request would pass a bound, and that the
  pan offset is \<open>(0, 0)\<close> whenever the resulting scale is 1. The code breaks the last
  part in the session \<open>pannedAtScale1\<close>. The wheel step back to scale 1 resets the view
  but leaves the pan gesture active, and the next mouse move pans the image at scale 1,
  to \<open>(40, -10)\<close>, though a pan can only start at a scale above 1. A wheel step down then
  asks for the scale \<open>10/11\<close>; the clamped scale is 1, equal to the scale, and
  \<open>handleWheel\<close> returns before its reset: the resulting scale is 1 and the pan offset is
  still \<open>(40, -10)\<close>. In the same state \<open>handleZoomOut\<close> does reset the pan offset.
\<close>

theorem wheel_at_scale_1_leaves_pan:
  "isPanningRef (handleWheel wheelDown (handlePanMouseDown (mouseAt 100 100)
      (handleWheel wheelUp mounted))) = True
   \<and> scale pannedAtScale1 = 1
   \<and> position pannedAtScale1 = (40, - 10)
   \<and> requestedScale (Wheel wheelDown) pannedAtScale1 = 10 / 11
   \<and> scale (zoom (Wheel wheelDown) pannedAtScale1) = 1
   \<and> position (zoom (Wheel wheelDown) pannedAtScale1) = (40, - 10)
   \<and> position (zoom (Wheel wheelDown) pannedAtScale1) \<noteq> (0, 0)
   \<and> position (zoom ZoomOutButton pannedAtScale1) = (0, 0)"
  by (simp add: pannedAtScale1_def mounted_def handleImageUpload_def resetView_def
      handleClearErase_def initial_def wheelUp_def wheelDown_def mouseAt_def container0_def
      handleWheel_def handlePanMouseDown_def handlePanMouseMove_def wheel_clampedScale_def
      wheel_newScale_def zoomFactor_def zoomAbout_def handleZoomOut_def Let_def)

text \<open>
  Claim C4. A wheel step that is handled, from a scale \<open>s > 0\<close> to a clamped scale
  \<open>s' > 1\<close>, sets the scale to \<open>s'\<close> and moves the pan offset so that the image point
  under the cursor stays under the cursor: \<open>(mx - px') / s' = (mx - px) / s\<close>, and the
  same for \<open>y\<close>, where \<open>(mx, my)\<close> is the cursor relative to the container.
\<close>

theorem wheel_zoom_keeps_cursor_point:
  assumes "activeTab s \<noteq> Erase" and "activeTab s \<noteq> CropTab"
    and "imageContainerRef s = Some c"
    and "0 < scale s"
    and "1 < wheel_clampedScale e (scale s)"
  shows "scale (handleWheel e s) = wheel_clampedScale e (scale s)
       \<and> (clientX e - rect_left c - fst (position (handleWheel e s))) / scale (handleWheel e s)
           = (clientX e - rect_left c - fst (position s)) / scale s
       \<and> (clientY e - rect_top c - snd (position (handleWheel e s))) / scale (handleWheel e s)
           = (clientY e - rect_top c - snd (position s)) / scale s
       \<and> imageCoords (position (handleWheel e s)) (scale (handleWheel e s))
             (clientX e - rect_left c, clientY e - rect_top c)
           = imageCoords (position s) (scale s)
             (clientX e - rect_left c, clientY e - rect_top c)"
proof (cases "wheel_clampedScale e (scale s) = scale s")
  case True
  then have "handleWheel e s = s"
    using assms(1-3) by (simp add: handleWheel_def Let_def)
  with True show ?thesis by simp
next
  case False
  define k where "k = wheel_clampedScale e (scale s)"
  have k: "k \<noteq> 0" "k \<noteq> scale s" "\<not> k \<le> 1" and s: "scale s \<noteq> 0"
    using assms(4,5) False by (simp_all add: k_def)
  have sc: "scale (handleWheel e s) = k"
    and pos: "position (handleWheel e s) =
      zoomAbout (clientX e - rect_left c, clientY e - rect_top c) (position s) k (scale s)"
    using assms(1-3) k by (simp_all add: handleWheel_def Let_def k_def [symmetric])
  have "(a - (a - (a - p) * (k / scale s))) / k = (a - p) / scale s" for a p :: rat
    using k(1) s by (simp add: field_simps)
  then show ?thesis
    unfolding sc pos by (simp add: zoomAbout_def imageCoords_def k_def)
qed

theorem wheel_zoom_keeps_cursor_point_witness:
  "scale (handleWheel wheelUp (mounted\<lparr> scale := 2, position := (10, 20) \<rparr>)) = 11 / 5
   \<and> position (handleWheel wheelUp (mounted\<lparr> scale := 2, position := (10, 20) \<rparr>)) = (1, 12)
   \<and> (100 - 1) / (11 / 5) = (100 - 10) / (2::rat)
   \<and> (100 - 12) / (11 / 5) = (100 - 20) / (2::rat)"
  using wheel_zoom_keeps_cursor_point
    [of "mounted\<lparr> scale := 2, position := (10, 20) \<rparr>" container0 wheelUp]
  by (simp add: mounted_def handleImageUpload_def resetView_def handleClearErase_def
      initial_def wheelUp_def container0_def handleWheel_def wheel_clampedScale_def
      wheel_newScale_def zoomFactor_def zoomAbout_def Let_def)

section \<open>Properties of the retouch hotspot\<close>

text \<open>
  Claim C5. A click whose point, mapped back through the pan and the scale, lies outside
  \<open>[0, clientWidth] \<times> [0, clientHeight]\<close> changes nothing: the state after the click is
  the state before it, so the display hotspot and the edit hotspot are as they were.
\<close>

theorem click_outside_image_is_noop:
  assumes "imgRef s = Some img" and "imageContainerRef s = Some c" and "scale s \<noteq> 0"
    and "imageCoords (position s) (scale s) (clientX e - rect_left c, clientY e - rect_top c)
          = (ix, iy)"
    and "ix < 0 \<or> iy < 0 \<or> ix > clientWidth img \<or> iy > clientHeight img"
  shows "handleImageClick e s = s
       \<and> displayHotspot (handleImageClick e s) = displayHotspot s
       \<and> editHotspot (handleImageClick e s) = editHotspot s"
proof -
  have "handleImageClick e s = s"
    using assms(1,2,4,5)
    by (cases "activeTab s = Retouch") (simp_all add: handleImageClick_def Let_def)
  then show ?thesis by simp
qed

theorem click_outside_image_is_noop_witness:
  "handleImageClick (mouseAt 900 100) (shown\<lparr> scale := 2, position := (- 1000, 0) \<rparr>)
     = shown\<lparr> scale := 2, position := (- 1000, 0) \<rparr>
   \<and> imageCoords (- 1000, 0) 2 (900, 100) = (950, 50)
   \<and> clientWidth img0 = 800"
  using click_outside_image_is_noop
    [of "shown\<lparr> scale := 2, position := (- 1000, 0) \<rparr>" img0 container0 "mouseAt 900 100"
      950 50]
  by (simp add: shown_def mounted_def handleImageUpload_def resetView_def
      handleClearErase_def initial_def mouseAt_def container0_def img0_def imageCoords_def)

text \<open>
  A click inside the image sets both hotspots, and the marker is then rendered at the
  clicked point of the container.
\<close>

lemma click_inside_image:
  assumes "activeTab s = Retouch" and "imgRef s = Some img" and "imageContainerRef s = Some c"
    and "imageCoords (position s) (scale s) (clientX e - rect_left c, clientY e - rect_top c)
          = (ix, iy)"
    and "0 \<le> ix" and "0 \<le> iy" and "ix \<le> clientWidth img" and "iy \<le> clientHeight img"
  shows "displayHotspot (handleImageClick e s) = Some (ix, iy)"
    and "editHotspot (handleImageClick e s) =
      Some (round (ix * (naturalWidth img / clientWidth img)),
            round (iy * (naturalHeight img / clientHeight img)))"
    and "scale (handleImageClick e s) = scale s"
    and "position (handleImageClick e s) = position s"
    and "isLoading (handleImageClick e s) = isLoading s"
    and "activeTab (handleImageClick e s) = Retouch"
  using assms by (simp_all add: handleImageClick_def Let_def not_less [symmetric])

text \<open>
  Claim C6. For every pan offset and every scale other than 0 (so for every scale
  \<open>s > 0\<close>), the map from the viewport to the image, \<open>(mouse - pan) / scale\<close>, and the
  map back, \<open>pan + image * scale\<close>, are inverse to each other, exactly.
\<close>

theorem coordinate_maps_inverse:
  assumes "sc \<noteq> 0"
  shows "viewportCoords pan sc (imageCoords pan sc m) = m
       \<and> imageCoords pan sc (viewportCoords pan sc p) = p"
proof
  have to_view: "a + (b - a) / sc * sc = b" for a b :: rat
    using assms by simp
  have "viewportCoords pan sc (imageCoords pan sc m) = (fst m, snd m)"
    unfolding viewportCoords_def imageCoords_def fst_conv snd_conv to_view ..
  then show "viewportCoords pan sc (imageCoords pan sc m) = m"
    by simp
next
  have to_image: "(a + b * sc - a) / sc = b" for a b :: rat
    using assms by simp
  have "imageCoords pan sc (viewportCoords pan sc p) = (fst p, snd p)"
    unfolding viewportCoords_def imageCoords_def fst_conv snd_conv to_image ..
  then show "imageCoords pan sc (viewportCoords pan sc p) = p"
    by simp
qed

theorem coordinate_maps_inverse_witness:
  "imageCoords (10, 20) 4 (110, 60) = (25, 10)
   \<and> viewportCoords (10, 20) 4 (25, 10) = (110, 60)
   \<and> viewportCoords (10, 20) 4 (imageCoords (10, 20) 4 (110, 60)) = (110, 60)"
  using coordinate_maps_inverse [of 4 "(10, 20)" "(110, 60)" "(25, 10)"]
  by (simp add: viewportCoords_def imageCoords_def)

lemma marker_under_cursor:
  assumes "activeTab s = Retouch" and "imgRef s = Some img" and "imageContainerRef s = Some c"
    and "scale s \<noteq> 0" and "\<not> isLoading s"
    and "imageCoords (position s) (scale s) (clientX e - rect_left c, clientY e - rect_top c)
          = (ix, iy)"
    and "0 \<le> ix" and "0 \<le> iy" and "ix \<le> clientWidth img" and "iy \<le> clientHeight img"
  shows "hotspotMarker (handleImageClick e s) = Some (clientX e - rect_left c, clientY e - rect_top c)"
proof -
  have "hotspotMarker (handleImageClick e s) = Some (viewportCoords (position s) (scale s) (ix, iy))"
    using click_inside_image [OF assms(1-3) assms(6-10)] assms(5)
    by (simp add: hotspotMarker_def)
  also have "viewportCoords (position s) (scale s) (ix, iy)
      = (clientX e - rect_left c, clientY e - rect_top c)"
    using assms(4) assms(6) [symmetric] by (simp add: viewportCoords_def imageCoords_def)
  finally show ?thesis .
qed

section \<open>Properties of \<open>dataURLtoFile\<close>\<close>

text \<open>The copying loop fills the array with the character codes of the string.\<close>

lemma fill_u8arr_copies:
  "n \<le> length bstr \<Longrightarrow> length u8arr = length bstr \<Longrightarrow>
   fill_u8arr n bstr u8arr = map (\<lambda>c. of_char c mod 256) (take n bstr) @ drop n u8arr"
proof (induction n arbitrary: u8arr)
  case 0
  then show ?case by simp
next
  case (Suc n)
  let ?v = "of_char (bstr ! n) mod 256 :: nat"
  have n: "n < length bstr" "n < length u8arr"
    using Suc.prems by simp_all
  have "fill_u8arr (Suc n) bstr u8arr
      = map (\<lambda>c. of_char c mod 256) (take n bstr) @ drop n (u8arr[n := ?v])"
    using Suc.IH [of "u8arr[n := ?v]"] Suc.prems by simp
  also have "drop n (u8arr[n := ?v]) = ?v # drop (Suc n) u8arr"
    using n(2) by (simp add: Cons_nth_drop_Suc [symmetric])
  also have "map (\<lambda>c. of_char c mod 256) (take n bstr) @ ?v # drop (Suc n) u8arr
      = map (\<lambda>c. of_char c mod 256) (take (Suc n) bstr) @ drop (Suc n) u8arr"
    using n(1) by (simp add: take_Suc_conv_app_nth)
  finally show ?case .
qed

lemma dataURLtoFile_file:
  assumes "dataURLtoFile env dataurl filename = Inr f"
  shows "\<exists>bstr. atob env (split_on CHR '','' dataurl ! 1) = Inr bstr
       \<and> file_bytes f = map (\<lambda>c. of_char c mod 256) bstr
       \<and> file_name f = filename
       \<and> mime_match (split_on CHR '','' dataurl ! 0) = Some (file_type f)"
  using assms fill_u8arr_copies [of "length b" b "replicate (length b) 0" for b]
  by (auto simp: dataURLtoFile_def Let_def split: if_splits option.splits sum.splits)

text \<open>A data URL without a media type, such as \<open>data:,\<close>, is refused.\<close>

lemma dataURLtoFile_no_mime:
  "dataURLtoFile env ''data:,'' filename = Inl ''Could not parse MIME type from data URL''"
  by (simp add: dataURLtoFile_def Let_def)

section \<open>The example states, evaluated\<close>

lemma dataURLtoFile_env0:
  "dataURLtoFile env0 ''data:image/png;base64,YWJj'' name =
     Inr \<lparr> file_name = name, file_type = ''image/png'', file_bytes = [97, 98, 99] \<rparr>"
  by (simp add: dataURLtoFile_def env0_def Let_def)

lemma editor0_simps:
  "history editor0 = [file0]" "historyIndex editor0 = 0" "currentImage editor0 = Some file0"
  "imgRef editor0 = Some img0" "activeTab editor0 = Retouch" "isLoading editor0 = False"
  by (simp_all add: editor0_def handleImageUpload_def resetView_def handleClearErase_def
      initial_def currentImage_def js_index_def)

lemma erasing0_simps:
  "history erasing0 = [file0]" "historyIndex erasing0 = 0" "currentImage erasing0 = Some file0"
  "imgRef erasing0 = Some img0" "activeTab erasing0 = Erase" "isLoading erasing0 = False"
  "eraseCanvasRef erasing0 = Some eraseCanvas0" "erasePathRef erasing0 = []"
  "isDrawing erasing0 = False"
  by (simp_all add: erasing0_def handleTabChange_def editor0_def handleImageUpload_def
      resetView_def handleClearErase_def initial_def currentImage_def js_index_def)

lemma stroke0_simps:
  "currentImage stroke0 = Some file0" "imgRef stroke0 = Some img0"
  "eraseCanvasRef stroke0 = Some eraseCanvas0" "erasePathRef stroke0 = [(10, 20), (30, 40)]"
  by (simp_all add: stroke0_def handleEraseMouseDown_def handleEraseMouseMove_def
      handleEraseMouseUp_def erasing0_simps mouseAt_def eraseCanvas0_def env0_def
      currentImage_def js_index_def)

lemma click0_simps:
  "currentImage click0 = Some file0" "imgRef click0 = Some img0"
  "eraseCanvasRef click0 = Some eraseCanvas0" "erasePathRef click0 = [(10, 20)]"
  "erasePath click0 = [(10, 20)]" "history click0 = [file0]" "historyIndex click0 = 0"
  by (simp_all add: click0_def handleEraseMouseDown_def handleEraseMouseUp_def
      erasing0_simps mouseAt_def eraseCanvas0_def currentImage_def js_index_def)

lemma cropping0_simps:
  "completedCrop cropping0 = Some crop0" "imgRef cropping0 = Some img0"
  "history cropping0 = [file0]" "historyIndex cropping0 = 0"
  by (simp_all add: cropping0_def handleTabChange_def editor0_def handleImageUpload_def
      resetView_def handleClearErase_def initial_def)

section \<open>Properties of the canvas handlers\<close>

lemma lineTo_loop_appends:
  "lineTo_loop sx sy ps c =
     c\<lparr> ctx := (ctx c)\<lparr> path := path (ctx c) @ map (\<lambda>q. LineTo (fst q * sx) (snd q * sy)) ps \<rparr> \<rparr>"
  by (induction ps arbitrary: c) (simp_all add: lineTo_def)

lemma maskCanvas_nonempty:
  "maskCanvas img dc (p0 # rest) =
     Inr \<lparr> width = naturalWidth img, height = naturalHeight img,
           ctx = defaultContext\<lparr> fillStyle := ''black'', strokeStyle := ''white'',
                   lineWidth := 30 * (naturalWidth img / el_width dc),
                   lineCap := ''round'', lineJoin := ''round'',
                   path := polyline (map (\<lambda>p. (fst p * (naturalWidth img / el_width dc),
                                            snd p * (naturalHeight img / el_height dc)))
                                      (p0 # rest)) \<rparr>,
           drawn = [FillRect ''black'' [] 0 0 (naturalWidth img) (naturalHeight img),
                    StrokePath ''white'' (30 * (naturalWidth img / el_width dc)) ''round'' ''round'' []
                      (polyline (map (\<lambda>p. (fst p * (naturalWidth img / el_width dc),
                                            snd p * (naturalHeight img / el_height dc)))
                                   (p0 # rest)))] \<rparr>"
  by (simp add: maskCanvas_def Let_def lineTo_loop_appends createCanvas_def setWidth_def
      setHeight_def fillRect_def beginPath_def moveTo_def stroke_def defaultContext_def
      comp_def)

lemma handleApplyErase_mask:
  assumes "currentImage s = Some cur" and "imgRef s = Some img"
    and "eraseCanvasRef s = Some dc" and "\<not> length (erasePathRef s) < 2"
    and "context2d env"
    and "maskCanvas img dc (erasePathRef s) = Inr mc"
  shows "er_mask (handleApplyErase env s) = Some mc"
  using assms by (simp add: handleApplyErase_def Let_def split: sum.splits)

text \<open>
  Claim C7. When apply-erase passes its guard and has a drawing context, it draws one
  mask canvas. For an image of natural size \<open>W \<times> H\<close> and an erase canvas of size
  \<open>w \<times> h\<close> (both non-zero), the mask is \<open>W\<close> wide and \<open>H\<close> high, whatever \<open>w\<close> and \<open>h\<close>
  are. Two things are drawn on it, in this order and with no transform: a rectangle
  filled in black from \<open>(0, 0)\<close> with size \<open>W \<times> H\<close>, all of the canvas; and the stroke, in
  white, of width \<open>30 * (W / w)\<close>, with round caps and round joins, of the polyline through
  the recorded points, each scaled by \<open>(W / w, H / h)\<close>.
\<close>

theorem erase_mask_rasterized:
  assumes "currentImage s = Some cur" and "imgRef s = Some img"
    and "eraseCanvasRef s = Some dc" and "2 \<le> length (erasePathRef s)"
    and "context2d env"
    and "el_width dc \<noteq> 0" and "el_height dc \<noteq> 0"
  shows "\<exists>mc. er_mask (handleApplyErase env s) = Some mc
       \<and> width mc = naturalWidth img \<and> height mc = naturalHeight img
       \<and> drawn mc =
           [FillRect ''black'' [] 0 0 (naturalWidth img) (naturalHeight img),
            StrokePath ''white'' (30 * (naturalWidth img / el_width dc)) ''round'' ''round'' []
              (polyline (map (\<lambda>p. (fst p * (naturalWidth img / el_width dc),
                                    snd p * (naturalHeight img / el_height dc)))
                           (erasePathRef s)))]"
proof -
  from assms(4) obtain p0 rest where pts: "erasePathRef s = p0 # rest"
    by (cases "erasePathRef s") auto
  have guard: "\<not> length (erasePathRef s) < 2"
    using assms(4) by simp
  note mk = maskCanvas_nonempty [of img dc p0 rest]
  have "er_mask (handleApplyErase env s) = Some (projr (maskCanvas img dc (erasePathRef s)))"
    using handleApplyErase_mask [OF assms(1-3) guard assms(5)] mk pts by simp
  then show ?thesis
    unfolding pts mk by simp
qed

theorem erase_mask_rasterized_witness:
  "\<exists>mc. er_mask (handleApplyErase env0 stroke0) = Some mc
     \<and> width mc = 1600 \<and> height mc = 1200
     \<and> drawn mc = [FillRect ''black'' [] 0 0 1600 1200,
                    StrokePath ''white'' 60 ''round'' ''round'' [] [MoveTo 20 40, LineTo 60 80]]"
  using erase_mask_rasterized [of stroke0 file0 img0 eraseCanvas0 env0]
  by (simp add: stroke0_simps img0_def eraseCanvas0_def env0_def)

lemma transformCanvas_rotation_size:
  assumes "t = RotateLeft \<or> t = RotateRight"
  shows "width (transformCanvas t w h) = h" and "height (transformCanvas t w h) = w"
  using assms
  by (auto simp: transformCanvas_def Let_def createCanvas_def setWidth_def setHeight_def
      translate_def rotateDegrees_def drawImage5_def)

lemma transformCanvas_flip_size:
  assumes "t = FlipHorizontal \<or> t = FlipVertical"
  shows "width (transformCanvas t w h) = w" and "height (transformCanvas t w h) = h"
  using assms
  by (auto simp: transformCanvas_def Let_def createCanvas_def setWidth_def setHeight_def
      translate_def scaleBy_def drawImage5_def)

text \<open>
  What \<open>handleTransform\<close> appends: the file decoded from the PNG of the canvas above. It
  becomes the current image.
\<close>

lemma handleTransform_appends:
  assumes "currentImage s = Some cur" and "loadImage env cur = Some (w, h)"
    and "context2d env"
    and "dataURLtoFile env (toDataURL env (transformCanvas t w h))
           (''transformed-'' @ now env @ ''.png'') = Inr f"
  shows "history (handleTransform t env s) = js_slice (history s) 0 (historyIndex s + 1) @ [f]"
    and "historyIndex (handleTransform t env s)
           = int (length (js_slice (history s) 0 (historyIndex s + 1)))"
    and "isLoading (handleTransform t env s) = False"
    and "error (handleTransform t env s) = None"
  using assms
  by (simp_all add: handleTransform_def Let_def addImageToHistory_def handleClearErase_def)

lemma handleTransform_current:
  assumes "currentImage s = Some cur" and "loadImage env cur = Some (w, h)"
    and "context2d env"
    and "dataURLtoFile env (toDataURL env (transformCanvas t w h))
           (''transformed-'' @ now env @ ''.png'') = Inr f"
  shows "currentImage (handleTransform t env s) = Some f"
  unfolding currentImage_def js_index_def
    handleTransform_appends(1) [OF assms] handleTransform_appends(2) [OF assms]
  by (simp add: nth_append)

lemma handleTransform_size:
  assumes "currentSize env s = Some (w, h)" and "context2d env"
    and "pngKeepsSize env (transformCanvas t w h)"
  shows "currentSize env (handleTransform t env s)
           = Some (width (transformCanvas t w h), height (transformCanvas t w h))"
proof -
  from assms(1) obtain cur where cur: "currentImage s = Some cur"
    and loads: "loadImage env cur = Some (w, h)"
    by (auto simp: currentSize_def split: option.splits)
  from assms(3) obtain f
    where f: "dataURLtoFile env (toDataURL env (transformCanvas t w h))
                (''transformed-'' @ now env @ ''.png'') = Inr f"
      and size: "loadImage env f = Some (width (transformCanvas t w h), height (transformCanvas t w h))"
    by (auto simp: pngKeepsSize_def split: sum.splits)
  have "currentImage (handleTransform t env s) = Some f"
    using cur loads assms(2) f by (rule handleTransform_current)
  with size show ?thesis
    by (simp add: currentSize_def)
qed

text \<open>
  Claim C8. Let the current image load with the size \<open>(w, h)\<close>, the canvas have a context,
  and the PNG of the canvas that \<open>handleTransform\<close> draws load with the size of that
  canvas. Then after \<open>handleTransform\<close> the current image is the transformed one, and it
  loads with the size \<open>(h, w)\<close> for a rotation to the left or to the right and with the
  size \<open>(w, h)\<close> for a flip. So after a rotation to the left and then one to the right, or
  the other way round, the current image loads with the size \<open>(w, h)\<close> again, when the PNG
  of the second canvas loads with the size of that canvas too.
\<close>

theorem transform_dimensions:
  assumes "currentSize env s = Some (w, h)" and "context2d env"
    and "pngKeepsSize env (transformCanvas t w h)"
  shows "currentSize env (handleTransform t env s)
           = Some (if t = RotateLeft \<or> t = RotateRight then (h, w) else (w, h))
       \<and> ((t = RotateLeft \<and> t' = RotateRight \<or> t = RotateRight \<and> t' = RotateLeft)
            \<and> pngKeepsSize env (transformCanvas t' h w) \<longrightarrow>
            currentSize env (handleTransform t' env (handleTransform t env s)) = Some (w, h))"
proof -
  let ?c = "transformCanvas t w h"
  have once: "currentSize env (handleTransform t env s) = Some (width ?c, height ?c)"
    using assms by (rule handleTransform_size)
  have size: "(width ?c, height ?c) = (if t = RotateLeft \<or> t = RotateRight then (h, w) else (w, h))"
  proof (cases "t = RotateLeft \<or> t = RotateRight")
    case True
    then show ?thesis
      using transformCanvas_rotation_size [OF True, of w h] by simp
  next
    case False
    then have flip: "t = FlipHorizontal \<or> t = FlipVertical"
      by (cases t) simp_all
    show ?thesis
      using False transformCanvas_flip_size [OF flip, of w h] by simp
  qed
  have there_and_back:
    "currentSize env (handleTransform t' env (handleTransform t env s)) = Some (w, h)"
    if turns: "t = RotateLeft \<and> t' = RotateRight \<or> t = RotateRight \<and> t' = RotateLeft"
      and png: "pngKeepsSize env (transformCanvas t' h w)"
  proof -
    from turns have rot: "t = RotateLeft \<or> t = RotateRight"
      and rot': "t' = RotateLeft \<or> t' = RotateRight"
      by auto
    have "currentSize env (handleTransform t env s) = Some (h, w)"
      using once transformCanvas_rotation_size [OF rot, of w h] by simp
    from this assms(2) png
    have "currentSize env (handleTransform t' env (handleTransform t env s))
        = Some (width (transformCanvas t' h w), height (transformCanvas t' h w))"
      by (rule handleTransform_size)
    with transformCanvas_rotation_size [OF rot', of h w] show ?thesis
      by simp
  qed
  from once size there_and_back show ?thesis
    by simp
qed

lemma env1_pngKeepsSize:
  "pngKeepsSize env1 (transformCanvas RotateLeft 4 3)"
  "pngKeepsSize env1 (transformCanvas RotateRight 3 4)"
  by (simp_all add: pngKeepsSize_def dataURLtoFile_def env1_def Let_def
      transformCanvas_rotation_size char_of_def bit_0)

lemma editor1_size: "currentSize env1 editor1 = Some (4, 3)"
  by (simp add: currentSize_def currentImage_def js_index_def editor1_def
      handleImageUpload_def resetView_def handleClearErase_def initial_def env1_def file1_def)

theorem transform_dimensions_witness:
  "currentSize env1 editor1 = Some (4, 3)
   \<and> currentSize env1 (handleTransform RotateLeft env1 editor1) = Some (3, 4)
   \<and> currentSize env1 (handleTransform RotateRight env1 (handleTransform RotateLeft env1 editor1))
       = Some (4, 3)"
  using transform_dimensions [of env1 editor1 4 3 RotateLeft RotateRight]
    env1_pngKeepsSize editor1_size
  by (simp add: env1_def)

lemma canvasDimension_in_range:
  assumes "0 \<le> v" and "v < 2147483648"
  shows "canvasDimension dflt v = of_int \<lfloor>v\<rfloor>"
proof -
  have lo: "0 \<le> \<lfloor>v\<rfloor>"
    using assms(1) by simp
  have hi: "\<lfloor>v\<rfloor> < 2147483648"
    using assms(2) by (simp add: floor_less_iff)
  have "toUnsignedLong v = \<lfloor>v\<rfloor>"
    using assms(1) lo hi by (simp add: toUnsignedLong_def)
  with hi show ?thesis
    by (simp add: canvasDimension_def Let_def)
qed

lemma cropCanvas_drawn:
  "cropCanvas r img cc =
     \<lparr> width = canvasDimension 300 (crop_width cc * r),
       height = canvasDimension 150 (crop_height cc * r),
       ctx = defaultContext\<lparr> imageSmoothingQuality := ''high'',
               transform := [SetTransform r 0 0 r 0 0] \<rparr>,
       drawn = [DrawImage [SetTransform r 0 0 r 0 0]
                  (Some (crop_x cc * (naturalWidth img / img_width img),
                         crop_y cc * (naturalHeight img / img_height img),
                         crop_width cc * (naturalWidth img / img_width img),
                         crop_height cc * (naturalHeight img / img_height img)))
                  (0, 0, crop_width cc, crop_height cc)] \<rparr>"
  by (simp add: cropCanvas_def Let_def createCanvas_def setWidth_def setHeight_def
      setTransform_def drawImage9_def defaultContext_def)

text \<open>The ways \<open>handleApplyCrop\<close> ends without a new image.\<close>

lemma handleApplyCrop_refused:
  assumes "completedCrop s = None \<or> imgRef s = None"
  shows "handleApplyCrop env s = Returns (s\<lparr> error := Some ''Please select an area to crop.'' \<rparr>)"
  using assms by (auto simp: handleApplyCrop_def split: option.splits)

lemma handleApplyCrop_throws:
  assumes "completedCrop s = Some cc" and "imgRef s = Some img" and "context2d env"
    and "dataURLtoFile env (toDataURL env (cropCanvas (pixelRatio env) img cc))
           (''cropped-'' @ now env @ ''.png'') = Inl msg"
  shows "handleApplyCrop env s = Throws msg s"
  using assms by (simp add: handleApplyCrop_def Let_def)

text \<open>
  Claim C9, as the code has it. Let the crop \<open>(x, y, width, height)\<close> be completed, the
  image element be mounted with natural size \<open>W \<times> H\<close> and displayed size \<open>w \<times> h\<close> (both
  non-zero), and the canvas have a context. Let \<open>r\<close> be the pixel ratio the handler
  uses: \<open>window.devicePixelRatio\<close>, or 1 when that is 0. Then the canvas of apply-crop has
  the width and the height that the attributes keep of \<open>width * r\<close> and \<open>height * r\<close>: for
  a product from 0 up to \<open>2^31\<close>, not included, its integer part. The one thing drawn on
  the canvas, under the transform that scales by \<open>r\<close>, is the region \<open>(x * W/w, y * H/h,
  width * W/w, height * H/h)\<close> of the image into the rectangle \<open>(0, 0, width, height)\<close>.
  When \<open>dataURLtoFile\<close> accepts the data URL of this canvas, the handler returns with the
  file appended to the history as its last and current entry.
\<close>

theorem apply_crop_canvas:
  assumes "completedCrop s = Some cc" and "imgRef s = Some img" and "context2d env"
    and "img_width img \<noteq> 0" and "img_height img \<noteq> 0"
    and "dataURLtoFile env (toDataURL env (cropCanvas (pixelRatio env) img cc))
           (''cropped-'' @ now env @ ''.png'') = Inr f"
  shows "pixelRatio env = (if devicePixelRatio env = 0 then 1 else devicePixelRatio env)
       \<and> width (cropCanvas (pixelRatio env) img cc)
           = canvasDimension 300 (crop_width cc * pixelRatio env)
       \<and> height (cropCanvas (pixelRatio env) img cc)
           = canvasDimension 150 (crop_height cc * pixelRatio env)
       \<and> (0 \<le> crop_width cc * pixelRatio env \<and> crop_width cc * pixelRatio env < 2147483648 \<longrightarrow>
            width (cropCanvas (pixelRatio env) img cc)
              = of_int \<lfloor>crop_width cc * pixelRatio env\<rfloor>)
       \<and> (0 \<le> crop_height cc * pixelRatio env \<and> crop_height cc * pixelRatio env < 2147483648 \<longrightarrow>
            height (cropCanvas (pixelRatio env) img cc)
              = of_int \<lfloor>crop_height cc * pixelRatio env\<rfloor>)
       \<and> drawn (cropCanvas (pixelRatio env) img cc) =
           [DrawImage [SetTransform (pixelRatio env) 0 0 (pixelRatio env) 0 0]
              (Some (crop_x cc * (naturalWidth img / img_width img),
                     crop_y cc * (naturalHeight img / img_height img),
                     crop_width cc * (naturalWidth img / img_width img),
                     crop_height cc * (naturalHeight img / img_height img)))
              (0, 0, crop_width cc, crop_height cc)]
       \<and> handleApplyCrop env s = Returns (addImageToHistory f s)
       \<and> history (addImageToHistory f s) = js_slice (history s) 0 (historyIndex s + 1) @ [f]
       \<and> currentImage (addImageToHistory f s) = Some f"
proof -
  let ?c = "cropCanvas (pixelRatio env) img cc"
  have r: "pixelRatio env = (if devicePixelRatio env = 0 then 1 else devicePixelRatio env)"
    by (simp add: pixelRatio_def)
  have w: "width ?c = canvasDimension 300 (crop_width cc * pixelRatio env)"
    and h: "height ?c = canvasDimension 150 (crop_height cc * pixelRatio env)"
    and d: "drawn ?c =
           [DrawImage [SetTransform (pixelRatio env) 0 0 (pixelRatio env) 0 0]
              (Some (crop_x cc * (naturalWidth img / img_width img),
                     crop_y cc * (naturalHeight img / img_height img),
                     crop_width cc * (naturalWidth img / img_width img),
                     crop_height cc * (naturalHeight img / img_height img)))
              (0, 0, crop_width cc, crop_height cc)]"
    unfolding cropCanvas_drawn by simp_all
  have w': "width ?c = of_int \<lfloor>crop_width cc * pixelRatio env\<rfloor>"
    if "0 \<le> crop_width cc * pixelRatio env \<and> crop_width cc * pixelRatio env < 2147483648"
    unfolding w using that by (simp add: canvasDimension_in_range)
  have h': "height ?c = of_int \<lfloor>crop_height cc * pixelRatio env\<rfloor>"
    if "0 \<le> crop_height cc * pixelRatio env \<and> crop_height cc * pixelRatio env < 2147483648"
    unfolding h using that by (simp add: canvasDimension_in_range)
  have run: "handleApplyCrop env s = Returns (addImageToHistory f s)"
    using assms(1-3,6) by (simp add: handleApplyCrop_def Let_def)
  have hist: "history (addImageToHistory f s) = js_slice (history s) 0 (historyIndex s + 1) @ [f]"
    by (simp add: addImageToHistory_def handleClearErase_def Let_def)
  have cur: "currentImage (addImageToHistory f s) = Some f"
    unfolding currentImage_def js_index_def addImageToHistory_index hist
    by (simp add: nth_append)
  from r w h w' h' d run hist cur show ?thesis
    by blast
qed

theorem apply_crop_canvas_witness:
  "width (cropCanvas (pixelRatio env0) img0 crop0) = 400
   \<and> height (cropCanvas (pixelRatio env0) img0 crop0) = 200
   \<and> drawn (cropCanvas (pixelRatio env0) img0 crop0) =
       [DrawImage [SetTransform 2 0 0 2 0 0] (Some (200, 100, 400, 200)) (0, 0, 200, 100)]
   \<and> history (state_of (handleApplyCrop env0 cropping0)) =
       [file0, \<lparr> file_name = ''cropped-0.png'', file_type = ''image/png'',
                 file_bytes = [97, 98, 99] \<rparr>]"
  using apply_crop_canvas [of cropping0 crop0 img0 env0
      "\<lparr> file_name = ''cropped-0.png'', file_type = ''image/png'', file_bytes = [97, 98, 99] \<rparr>"]
    dataURLtoFile_env0 [of "''cropped-0.png''"]
  by (simp add: cropping0_simps img0_def crop0_def env0_def js_slice_def pixelRatio_def)

text \<open>
  Claim C9 as stated fails, in four ways. A crop of 101 by 50 at the pixel ratio 1.25
  asks for a canvas of 126.25 by 62.5; the canvas is 126 by 62. At a pixel ratio
  reported as 0 the handler uses 1: the canvas of the crop of 200 by 100 is 200 by 100,
  not 0 by 0. Without a drawing context the handler sets an error and appends nothing.
  And a crop of height 0 gives a canvas with no pixels, whose data URL \<open>data:,\<close> is
  refused by \<open>dataURLtoFile\<close>: the handler throws and appends nothing.
\<close>

theorem apply_crop_canvas_counterexample:
  "crop_width (crop0\<lparr> crop_width := 101, crop_height := 50 \<rparr>)
      * devicePixelRatio (env0\<lparr> devicePixelRatio := 5 / 4 \<rparr>) = 505 / 4
   \<and> width (cropCanvas (pixelRatio (env0\<lparr> devicePixelRatio := 5 / 4 \<rparr>)) img0
        (crop0\<lparr> crop_width := 101, crop_height := 50 \<rparr>)) = 126
   \<and> crop_height (crop0\<lparr> crop_width := 101, crop_height := 50 \<rparr>)
      * devicePixelRatio (env0\<lparr> devicePixelRatio := 5 / 4 \<rparr>) = 125 / 2
   \<and> height (cropCanvas (pixelRatio (env0\<lparr> devicePixelRatio := 5 / 4 \<rparr>)) img0
        (crop0\<lparr> crop_width := 101, crop_height := 50 \<rparr>)) = 62
   \<and> crop_width crop0 * devicePixelRatio (env0\<lparr> devicePixelRatio := 0 \<rparr>) = 0
   \<and> width (cropCanvas (pixelRatio (env0\<lparr> devicePixelRatio := 0 \<rparr>)) img0 crop0) = 200
   \<and> handleApplyCrop (env0\<lparr> context2d := False \<rparr>) cropping0
       = Returns (cropping0\<lparr> error := Some ''Could not process the crop.'' \<rparr>)
   \<and> handleApplyCrop env2 flatCrop0
       = Throws ''Could not parse MIME type from data URL'' flatCrop0
   \<and> history flatCrop0 = [file0]"
proof -
  have floors: "\<lfloor>505 / 4 :: rat\<rfloor> = 126" "\<lfloor>125 / 2 :: rat\<rfloor> = 62"
    by (rule floor_unique; simp)+
  have sizes: "width (cropCanvas (pixelRatio (env0\<lparr> devicePixelRatio := 5 / 4 \<rparr>)) img0
        (crop0\<lparr> crop_width := 101, crop_height := 50 \<rparr>)) = 126"
    "height (cropCanvas (pixelRatio (env0\<lparr> devicePixelRatio := 5 / 4 \<rparr>)) img0
        (crop0\<lparr> crop_width := 101, crop_height := 50 \<rparr>)) = 62"
    "width (cropCanvas (pixelRatio (env0\<lparr> devicePixelRatio := 0 \<rparr>)) img0 crop0) = 200"
    using floors
    by (simp_all add: cropCanvas_drawn canvasDimension_def toUnsignedLong_def pixelRatio_def
        env0_def crop0_def Let_def)
  have products: "crop_width (crop0\<lparr> crop_width := 101, crop_height := 50 \<rparr>)
      * devicePixelRatio (env0\<lparr> devicePixelRatio := 5 / 4 \<rparr>) = 505 / 4"
    "crop_height (crop0\<lparr> crop_width := 101, crop_height := 50 \<rparr>)
      * devicePixelRatio (env0\<lparr> devicePixelRatio := 5 / 4 \<rparr>) = 125 / 2"
    "crop_width crop0 * devicePixelRatio (env0\<lparr> devicePixelRatio := 0 \<rparr>) = 0"
    by (simp_all add: crop0_def)
  have no_context: "handleApplyCrop (env0\<lparr> context2d := False \<rparr>) cropping0
      = Returns (cropping0\<lparr> error := Some ''Could not process the crop.'' \<rparr>)"
    by (simp add: handleApplyCrop_def cropping0_simps)
  have flat: "completedCrop flatCrop0 = Some (crop0\<lparr> crop_height := 0 \<rparr>)"
    "imgRef flatCrop0 = Some img0" "history flatCrop0 = [file0]"
    by (simp_all add: flatCrop0_def cropping0_simps)
  have "height (cropCanvas (pixelRatio env2) img0 (crop0\<lparr> crop_height := 0 \<rparr>)) = 0"
    by (simp add: cropCanvas_drawn canvasDimension_def toUnsignedLong_def Let_def)
  then have "toDataURL env2 (cropCanvas (pixelRatio env2) img0 (crop0\<lparr> crop_height := 0 \<rparr>))
      = ''data:,''"
    by (simp add: env2_def)
  then have no_pixels: "handleApplyCrop env2 flatCrop0
      = Throws ''Could not parse MIME type from data URL'' flatCrop0"
    using dataURLtoFile_no_mime [of env2]
    by (simp add: handleApplyCrop_def flat Let_def env2_def env0_def)
  from sizes products no_context no_pixels flat(3) show ?thesis
    by simp
qed

lemma handleApplyErase_refuses:
  assumes "length (erasePathRef u) < 2"
  shows "handleApplyErase env u =
      \<lparr> er_state = u\<lparr> error := Some ''Please draw on the image to select an area to erase.'' \<rparr>,
        er_mask = None, er_request = None \<rparr>"
  using assms by (simp add: handleApplyErase_def split: option.splits)

text \<open>
  Claim C10. With fewer than two recorded points apply-erase only sets its error
  message: the history, its index and the current image are as before, no mask is drawn
  and no request is made, whatever the browser and the service would answer. A click on
  the erase canvas without a move records one point and enables the buttons of the
  panel, so this is what the erase button does after such a click.
\<close>

theorem apply_erase_needs_two_points:
  "(length (erasePathRef s) < 2 \<longrightarrow>
      handleApplyErase env s =
        \<lparr> er_state = s\<lparr> error := Some ''Please draw on the image to select an area to erase.'' \<rparr>,
          er_mask = None, er_request = None \<rparr>
    \<and> history (er_state (handleApplyErase env s)) = history s
    \<and> historyIndex (er_state (handleApplyErase env s)) = historyIndex s
    \<and> currentImage (er_state (handleApplyErase env s)) = currentImage s)
   \<and> (activeTab t = Erase \<and> \<not> isLoading t \<and> eraseCanvasRef t = Some dc \<longrightarrow>
        (let t' = handleEraseMouseUp (state_of (handleEraseMouseDown e t))
         in erasePathRef t' = [(clientX e - el_left dc, clientY e - el_top dc)]
          \<and> canErase t'
          \<and> handleApplyErase env t' =
              \<lparr> er_state = t'\<lparr> error := Some ''Please draw on the image to select an area to erase.'' \<rparr>,
                er_mask = None, er_request = None \<rparr>))"
proof -
  define t' where "t' = handleEraseMouseUp (state_of (handleEraseMouseDown e t))"
  have first: "handleApplyErase env s =
        \<lparr> er_state = s\<lparr> error := Some ''Please draw on the image to select an area to erase.'' \<rparr>,
          er_mask = None, er_request = None \<rparr>
      \<and> history (er_state (handleApplyErase env s)) = history s
      \<and> historyIndex (er_state (handleApplyErase env s)) = historyIndex s
      \<and> currentImage (er_state (handleApplyErase env s)) = currentImage s"
    if "length (erasePathRef s) < 2"
    unfolding handleApplyErase_refuses [OF that] by (simp add: currentImage_def)
  have second: "erasePathRef t' = [(clientX e - el_left dc, clientY e - el_top dc)]
      \<and> canErase t'
      \<and> handleApplyErase env t' =
          \<lparr> er_state = t'\<lparr> error := Some ''Please draw on the image to select an area to erase.'' \<rparr>,
            er_mask = None, er_request = None \<rparr>"
    if h: "activeTab t = Erase \<and> \<not> isLoading t \<and> eraseCanvasRef t = Some dc"
  proof -
    have pts: "erasePathRef t' = [(clientX e - el_left dc, clientY e - el_top dc)]"
      and shown: "erasePath t' = [(clientX e - el_left dc, clientY e - el_top dc)]"
      using h by (simp_all add: t'_def handleEraseMouseDown_def handleEraseMouseUp_def)
    have "length (erasePathRef t') < 2"
      by (simp add: pts)
    from handleApplyErase_refuses [OF this, of env] pts shown show ?thesis
      by (simp add: canErase_def)
  qed
  from first second show ?thesis
    unfolding Let_def t'_def [symmetric] by blast
qed

theorem apply_erase_needs_two_points_witness:
  "erasePathRef click0 = [(10, 20)] \<and> canErase click0
   \<and> er_state (handleApplyErase env0 click0) =
       click0\<lparr> error := Some ''Please draw on the image to select an area to erase.'' \<rparr>
   \<and> er_mask (handleApplyErase env0 click0) = None
   \<and> er_request (handleApplyErase env0 click0) = None
   \<and> history (er_state (handleApplyErase env0 click0)) = [file0]"
  using apply_erase_needs_two_points [of click0 env0 erasing0 eraseCanvas0 "mouseAt 10 20"]
  by (simp add: click0_simps erasing0_simps canErase_def)

end
